theory Spec2Isabelle
  imports Complex_Main "HOL-Library.Sublist" "HOL-Library.AList"
begin

section \<open>The signature decorator of the PDF viewer\<close>

text \<open>
  A shallow embedding of \<^verbatim>\<open>src/utils/signature-decorator.js\<close>. JavaScript numbers are
  read as real numbers (no rounding, no NaN, no infinities), strings as character lists,
  a property of known type that may be absent or \<^verbatim>\<open>undefined\<close> as an \<open>option\<close>. The DOM
  nodes the module builds are records of the attributes it sets. Console output and the calls into the
  viewer are collected in a trace.
\<close>

subsection \<open>Bounding boxes\<close>

record bbox =
  left :: real
  top_edge :: real
  width :: real
  height :: real

text \<open>\<^verbatim>\<open>checkBoundingBoxOverlap\<close>: not disjoint on any of the four sides.\<close>

definition checkBoundingBoxOverlap :: "bbox \<Rightarrow> bbox \<Rightarrow> bool" where
  "checkBoundingBoxOverlap bbox1 bbox2 =
     (\<not> (left bbox1 > left bbox2 + width bbox2 \<or>
         left bbox1 + width bbox1 < left bbox2 \<or>
         top_edge bbox1 > top_edge bbox2 + height bbox2 \<or>
         top_edge bbox1 + height bbox1 < top_edge bbox2))"

text \<open>
  What the overlap test is compared with: the projections of a box on the two axes, as
  closed intervals, and the region a box covers.
\<close>

definition x_projection :: "bbox \<Rightarrow> real set" where
  "x_projection b = {left b .. left b + width b}"

definition y_projection :: "bbox \<Rightarrow> real set" where
  "y_projection b = {top_edge b .. top_edge b + height b}"

definition projections_intersect :: "bbox \<Rightarrow> bbox \<Rightarrow> bool" where
  "projections_intersect a b =
     (x_projection a \<inter> x_projection b \<noteq> {} \<and> y_projection a \<inter> y_projection b \<noteq> {})"

definition valid_bbox :: "bbox \<Rightarrow> bool" where
  "valid_bbox b = (0 \<le> width b \<and> 0 \<le> height b)"

text \<open>
  Two boxes touch only at an edge when their projections meet on both axes and, on one
  axis at least, meet in a single coordinate: one box ends where the other starts.
\<close>

definition touch_at_edge :: "bbox \<Rightarrow> bbox \<Rightarrow> bool" where
  "touch_at_edge a b =
     (projections_intersect a b \<and>
      (left a + width a = left b \<or> left b + width b = left a \<or>
       top_edge a + height a = top_edge b \<or> top_edge b + height b = top_edge a))"

subsection \<open>Strings and optional values\<close>

text \<open>
  \<^verbatim>\<open>s.includes(p)\<close>: \<open>p\<close> occurs in \<open>s\<close> as a contiguous run of characters. The empty
  pattern occurs in every string.
\<close>

definition includes_str :: "string \<Rightarrow> string \<Rightarrow> bool" where
  "includes_str s p = sublist p s"

text \<open>
  Truthiness of a property that is absent or a string: absent and the empty string are
  falsy. \<^verbatim>\<open>x || ""\<close> reads such a property as a string.
\<close>

definition truthy_str :: "string option \<Rightarrow> bool" where
  "truthy_str x = (case x of None \<Rightarrow> False | Some s \<Rightarrow> s \<noteq> [])"

definition or_empty :: "string option \<Rightarrow> string" where
  "or_empty x = (case x of None \<Rightarrow> [] | Some s \<Rightarrow> s)"

text \<open>Truthiness of a flag that is absent or carries a truthy or a falsy value.\<close>

definition truthy_flag :: "bool option \<Rightarrow> bool" where
  "truthy_flag x = (case x of None \<Rightarrow> False | Some b \<Rightarrow> b)"

subsection \<open>Configuration\<close>

record curve_config =
  curve_color :: string
  strokeWidth :: string
  topLengthRatio :: real
  topLengthMax :: real
  bottomLengthRatio :: real
  bottomLengthMax :: real

record fontSize_config =
  fontSize_top :: real
  fontSize_bottom :: real

record text_config =
  text_color :: string
  fontFamily :: string
  fontSize :: fontSize_config
  gap :: real

record position_config =
  svgTopOffset :: real
  svgLeftOffset :: real
  topLabelOffset :: real
  bottomLabelOffset :: real

record signatureIdentifiers_config =
  typeCode :: string
  namePattern :: string

record defaults_config =
  signerName :: string

text \<open>The options handed to \<^verbatim>\<open>toLocaleString\<close>; each of them may be left out.\<close>

record dateTimeFormat_config =
  year :: "string option"
  month :: "string option"
  day :: "string option"
  hour :: "string option"
  minute :: "string option"
  second :: "string option"
  hour12 :: "bool option"

record config =
  curve :: curve_config
  text_cfg :: text_config
  position :: position_config
  signatureIdentifiers :: signatureIdentifiers_config
  defaults :: defaults_config
  dateTimeFormat :: dateTimeFormat_config

definition DEFAULT_CONFIG :: config where
  "DEFAULT_CONFIG =
     \<lparr>curve = \<lparr>curve_color = ''#0078D4'', strokeWidth = ''1.5'', topLengthRatio = 0.25,
               topLengthMax = 50, bottomLengthRatio = 0.35, bottomLengthMax = 70\<rparr>,
      text_cfg = \<lparr>text_color = ''#008000'',
               fontFamily = ''-apple-system, BlinkMacSystemFont, 'Segoe UI', Roboto, sans-serif'',
               fontSize = \<lparr>fontSize_top = 9, fontSize_bottom = 8\<rparr>, gap = 3\<rparr>,
      position = \<lparr>svgTopOffset = - 25, svgLeftOffset = - 5, topLabelOffset = - 27,
               bottomLabelOffset = - 24\<rparr>,
      signatureIdentifiers = \<lparr>typeCode = ''S'', namePattern = ''SIGNATURE''\<rparr>,
      defaults = \<lparr>signerName = ''Nutrient''\<rparr>,
      dateTimeFormat = \<lparr>year = Some ''numeric'', month = Some ''2-digit'', day = Some ''2-digit'',
               hour = Some ''2-digit'', minute = Some ''2-digit'', second = Some ''2-digit'',
               hour12 = Some True\<rparr>\<rparr>"

subsection \<open>Form fields\<close>

text \<open>
  A form field of the viewer: the name of its constructor (\<^verbatim>\<open>formField.constructor?.name\<close>)
  and its \<^verbatim>\<open>name\<close>, each possibly absent.
\<close>

record formfield =
  constructor_name :: "string option"
  name :: "string option"

text \<open>\<^verbatim>\<open>isSignatureField\<close>; the argument is \<open>None\<close> when the field is null or undefined.\<close>

definition isSignatureField :: "formfield option \<Rightarrow> config \<Rightarrow> bool" where
  "isSignatureField formField cfg =
     (case formField of
        None \<Rightarrow> False
      | Some ff \<Rightarrow>
          (let typeName = or_empty (constructor_name ff);
               fieldName = or_empty (name ff)
           in includes_str typeName ''Signature'' \<or>
              typeName = typeCode (signatureIdentifiers cfg) \<or>
              includes_str fieldName (namePattern (signatureIdentifiers cfg))))"

subsection \<open>JavaScript values\<close>

text \<open>
  A value where the module does not know its type: \<^verbatim>\<open>undefined\<close>, \<^verbatim>\<open>null\<close>, a
  boolean, a number, a string, or a plain object, the list of its own properties in the
  order of their creation, each key once. Arrays, functions and objects that bring
  methods of their own are left out.
\<close>

datatype jsval =
    JUndefined
  | JNull
  | JBool bool
  | JNum real
  | JStr string
  | JObj "(string \<times> jsval) list"

text \<open>What a condition or \<^verbatim>\<open>||\<close> makes of a value.\<close>

fun truthy :: "jsval \<Rightarrow> bool" where
  "truthy JUndefined = False"
| "truthy JNull = False"
| "truthy (JBool b) = b"
| "truthy (JNum x) = (x \<noteq> 0)"
| "truthy (JStr s) = (s \<noteq> [])"
| "truthy (JObj ps) = True"

subsection \<open>Errors\<close>

text \<open>
  What a rejected call hands to a \<^verbatim>\<open>catch\<close>: one error value or an array of them. An
  error value is \<^verbatim>\<open>undefined\<close>, \<^verbatim>\<open>null\<close>, or any other value, given by what its
  \<^verbatim>\<open>message\<close> property holds (\<^verbatim>\<open>undefined\<close> when it has none). An \<^verbatim>\<open>Error\<close> object
  holds a string there; nothing keeps a thrown object from holding something else.
\<close>

datatype error_value = ErrUndefined | ErrNull | ErrObject jsval

datatype thrown = Single error_value | Array "error_value list"

text \<open>
  The \<^verbatim>\<open>TypeError\<close> of a call of \<^verbatim>\<open>errorMsg.includes\<close> on a value that has no such
  method.
\<close>

definition not_a_function :: thrown where
  "not_a_function = Single (ErrObject (JStr ''errorMsg.includes is not a function''))"

text \<open>\<^verbatim>\<open>err?.message || ""\<close>\<close>

fun message_or_empty :: "error_value \<Rightarrow> jsval" where
  "message_or_empty (ErrObject m) = (if truthy m then m else JStr [])"
| "message_or_empty ErrUndefined = JStr []"
| "message_or_empty ErrNull = JStr []"

text \<open>
  \<^verbatim>\<open>errorMsg.includes(p)\<close>: the search in a string; on any other value of \<open>jsval\<close> the
  call throws.
\<close>

fun includes_call :: "jsval \<Rightarrow> string \<Rightarrow> thrown + bool" where
  "includes_call (JStr s) p = Inr (includes_str s p)"
| "includes_call v p = Inl not_a_function"

text \<open>
  The callback of \<^verbatim>\<open>errors.some\<close>: the second search runs when the first has returned
  false.
\<close>

definition message_matches :: "error_value \<Rightarrow> thrown + bool" where
  "message_matches err =
     (let errorMsg = message_or_empty err
      in case includes_call errorMsg ''no form field'' of
           Inl t \<Rightarrow> Inl t
         | Inr True \<Rightarrow> Inr True
         | Inr False \<Rightarrow> includes_call errorMsg ''There is no form field'')"

text \<open>
  \<^verbatim>\<open>Array.prototype.some\<close>: the elements in order, up to the first for which the callback
  returns true or throws.
\<close>

fun some :: "('a \<Rightarrow> thrown + bool) \<Rightarrow> 'a list \<Rightarrow> thrown + bool" where
  "some f [] = Inr False"
| "some f (x # xs) =
     (case f x of
        Inl t \<Rightarrow> Inl t
      | Inr True \<Rightarrow> Inr True
      | Inr False \<Rightarrow> some f xs)"

text \<open>\<^verbatim>\<open>Array.isArray(error) ? error : [error]\<close>\<close>

fun errors_of :: "thrown \<Rightarrow> error_value list" where
  "errors_of (Array es) = es"
| "errors_of (Single e) = [e]"

text \<open>\<^verbatim>\<open>isFormFieldNotFoundError\<close>: \<open>Inl\<close> is the error it throws, \<open>Inr\<close> the value it returns.\<close>

definition isFormFieldNotFoundError :: "thrown \<Rightarrow> thrown + bool" where
  "isFormFieldNotFoundError error = some message_matches (errors_of error)"

text \<open>
  The error values an \<^verbatim>\<open>Error\<close> object can be, and those that read like one: the message
  is a string, or is one of the values that \<^verbatim>\<open>|| ""\<close> replaces by the empty string.
\<close>

fun message_is_text :: "error_value \<Rightarrow> bool" where
  "message_is_text ErrUndefined = True"
| "message_is_text ErrNull = True"
| "message_is_text (ErrObject (JStr s)) = True"
| "message_is_text (ErrObject JUndefined) = True"
| "message_is_text (ErrObject JNull) = True"
| "message_is_text (ErrObject (JBool b)) = (\<not> b)"
| "message_is_text (ErrObject (JNum x)) = (x = 0)"
| "message_is_text (ErrObject (JObj ps)) = False"

definition messages_are_text :: "thrown \<Rightarrow> bool" where
  "messages_are_text error = list_all message_is_text (errors_of error)"

subsection \<open>Curves and labels\<close>

text \<open>
  An SVG path element: its \<^verbatim>\<open>d\<close> attribute as the list of its commands (the numbers
  before their formatting), and the three attributes set beside it.
\<close>

datatype path_cmd =
    MoveTo real real
  | LineTo real real
  | CurveTo real real real real real real

record svg_path =
  d :: "path_cmd list"
  stroke :: string
  stroke_width :: string
  fill :: string

record curve_result =
  path :: svg_path
  curve_length :: real

definition createTopCurve :: "real \<Rightarrow> config \<Rightarrow> curve_result" where
  "createTopCurve w cfg =
     (let curveLength = min (w * topLengthRatio (curve cfg)) (topLengthMax (curve cfg))
      in \<lparr>path = \<lparr>d = [MoveTo 0 25, LineTo 0 15, CurveTo 0 10 2 8 7 8, LineTo curveLength 8],
                   stroke = curve_color (curve cfg),
                   stroke_width = strokeWidth (curve cfg),
                   fill = ''none''\<rparr>,
          curve_length = curveLength\<rparr>)"

definition createBottomCurve :: "real \<Rightarrow> real \<Rightarrow> config \<Rightarrow> curve_result" where
  "createBottomCurve h w cfg =
     (let bottomY = h + 25;
          curveLength = min (w * bottomLengthRatio (curve cfg)) (bottomLengthMax (curve cfg))
      in \<lparr>path = \<lparr>d = [MoveTo 0 bottomY, LineTo 0 (bottomY + 8),
                        CurveTo 0 (bottomY + 13) 2 (bottomY + 15) 7 (bottomY + 15),
                        LineTo curveLength (bottomY + 15)],
                   stroke = curve_color (curve cfg),
                   stroke_width = strokeWidth (curve cfg),
                   fill = ''none''\<rparr>,
          curve_length = curveLength\<rparr>)"

text \<open>
  A label: its text and the style values that vary (the vertical anchor is \<^verbatim>\<open>top\<close> for
  the upper label and \<^verbatim>\<open>bottom\<close> for the lower one).
\<close>

datatype anchor = Top real | Bottom real

record label =
  textContent :: string
  vertical :: anchor
  left_px :: real
  font_size :: real
  label_color :: string

definition createTopLabel :: "string \<Rightarrow> real \<Rightarrow> config \<Rightarrow> label" where
  "createTopLabel signer curveLength cfg =
     \<lparr>textContent = ''By '' @ signer,
      vertical = Top (topLabelOffset (position cfg)),
      left_px = curveLength + gap (text_cfg cfg),
      font_size = fontSize_top (fontSize (text_cfg cfg)),
      label_color = text_color (text_cfg cfg)\<rparr>"

text \<open>
  The lower label shows the current date and time; the clock and its formatting belong to
  the environment, so \<^verbatim>\<open>getCurrentDateTime\<close> is a parameter \<open>now\<close>.
\<close>

definition createBottomLabel ::
  "(dateTimeFormat_config \<Rightarrow> string) \<Rightarrow> real \<Rightarrow> real \<Rightarrow> config \<Rightarrow> label" where
  "createBottomLabel now curveLength w cfg =
     (let formattedDateTime = now (dateTimeFormat cfg)
      in \<lparr>textContent = formattedDateTime,
          vertical = Bottom (bottomLabelOffset (position cfg)),
          left_px = curveLength + gap (text_cfg cfg),
          font_size = fontSize_bottom (fontSize (text_cfg cfg)),
          label_color = text_color (text_cfg cfg)\<rparr>)"

subsection \<open>Annotations and the renderer\<close>

datatype annotation_class = InkAnnotation | ImageAnnotation | WidgetAnnotation | OtherAnnotation

record custom_data =
  cd_isSignature :: "bool option"
  cd_signerName :: "string option"

record annotation =
  ann_class :: annotation_class
  pageIndex :: nat
  boundingBox :: bbox
  customData :: "custom_data option"
  isSignature :: "bool option"
  formFieldName :: "string option"

record svg_node =
  svg_width :: real
  svg_height :: real
  svg_top :: real
  svg_left :: real
  children :: "svg_path list"

record wrapper_node =
  className :: string
  font_family :: string
  svg :: svg_node
  labels :: "label list"

record overlay =
  node :: wrapper_node
  append_flag :: bool
  noZoom :: bool

text \<open>
  \<^verbatim>\<open>annotation.customData?.toJS?.() || annotation.customData || {}\<close>: the custom data as a
  plain object, empty when the annotation has none.
\<close>

definition customData_of :: "annotation \<Rightarrow> custom_data" where
  "customData_of a =
     (case customData a of
        None \<Rightarrow> \<lparr>cd_isSignature = None, cd_signerName = None\<rparr>
      | Some cd \<Rightarrow> cd)"

text \<open>
  The function \<^verbatim>\<open>createSignatureRenderer\<close> returns, for the logged-in user and the merged
  configuration it has closed over. \<open>None\<close> is the \<^verbatim>\<open>null\<close> that tells the viewer to
  draw nothing.
\<close>

definition signatureRenderer ::
  "string option \<Rightarrow> config \<Rightarrow> (dateTimeFormat_config \<Rightarrow> string) \<Rightarrow> annotation \<Rightarrow> overlay option" where
  "signatureRenderer loggedInUser cfg now a =
     (let isInkAnnotation = (ann_class a = InkAnnotation);
          isImageAnnotation = (ann_class a = ImageAnnotation);
          cd = customData_of a;
          isSig = (truthy_flag (cd_isSignature cd) \<or> truthy_flag (isSignature a))
      in if \<not> isInkAnnotation \<and> \<not> isImageAnnotation \<and> \<not> isSig then None
         else
           (let signer =
                  (if truthy_str (cd_signerName cd) then or_empty (cd_signerName cd)
                   else if truthy_str loggedInUser then or_empty loggedInUser
                   else signerName (defaults cfg));
                w = width (boundingBox a);
                h = height (boundingBox a);
                top_curve = createTopCurve w cfg;
                bottom_curve = createBottomCurve h w cfg;
                topLabel = createTopLabel signer (curve_length top_curve) cfg;
                bottomLabel = createBottomLabel now (curve_length bottom_curve) w cfg
            in Some \<lparr>node = \<lparr>className = ''signature-metadata-wrapper'',
                              font_family = fontFamily (text_cfg cfg),
                              svg = \<lparr>svg_width = max (w * 0.4) 80,
                                     svg_height = h + 50,
                                     svg_top = svgTopOffset (position cfg),
                                     svg_left = svgLeftOffset (position cfg),
                                     children = [path top_curve, path bottom_curve]\<rparr>,
                              labels = [topLabel, bottomLabel]\<rparr>,
                     append_flag = True,
                     noZoom = False\<rparr>))"

subsection \<open>The viewer instance and the trace of effects\<close>

datatype entity = AnnotationEntity annotation | FormFieldEntity formfield

text \<open>
  The calls the module makes on the viewer instance, over a state \<open>'h\<close> of the viewer that
  the module never inspects. Each call may fail; \<^verbatim>\<open>delete\<close> returns the state it leaves
  and the error it failed with, if any.
\<close>

record 'h viewer =
  getAnnotations :: "'h \<Rightarrow> nat \<Rightarrow> thrown + annotation list"
  getFormFields :: "'h \<Rightarrow> thrown + formfield list"
  delete :: "'h \<Rightarrow> entity \<Rightarrow> 'h \<times> thrown option"

text \<open>
  A viewer each of whose calls, when it fails, fails with error values of that kind.
\<close>

definition viewer_errors_are_text :: "'h viewer \<Rightarrow> bool" where
  "viewer_errors_are_text v =
     ((\<forall>h p e. getAnnotations v h p = Inl e \<longrightarrow> messages_are_text e) \<and>
      (\<forall>h e. getFormFields v h = Inl e \<longrightarrow> messages_are_text e) \<and>
      (\<forall>h x h' e. delete v h x = (h', Some e) \<longrightarrow> messages_are_text e))"

text \<open>
  The trace: what the module writes to the console, in order, and each call of
  \<^verbatim>\<open>instance.delete\<close> at the moment it is made.
\<close>

datatype event =
    Log_SignatureDetected annotation_class
  | Log_FoundWidgets nat
  | Log_Strategy1
  | Log_Strategy2
  | Call_delete entity
  | Log_DeletedWidget
  | Warn_NoWidget
  | Log_DeletedFormField
  | Log_AlreadyDeleted
  | Error_Deleting thrown

type_synonym 'h state = "'h \<times> event list"

text \<open>The entries of the trace that announce a detected signature.\<close>

fun is_detected :: "event \<Rightarrow> bool" where
  "is_detected (Log_SignatureDetected c) = True"
| "is_detected e = False"

subsection \<open>Finding the widget and the form field to delete\<close>

text \<open>
  Strategy 1 of \<^verbatim>\<open>handleSignatureCreation\<close>: the widget and the form field that carry
  the form field name of the annotation, when it has one.
\<close>

definition strategy1 ::
  "annotation \<Rightarrow> annotation list \<Rightarrow> formfield list
     \<Rightarrow> annotation option \<times> formfield option \<times> event list" where
  "strategy1 a widgetAnnotations formFields =
     (if truthy_str (formFieldName a) then
        (let widgetToDelete =
               List.find (\<lambda>widget. formFieldName widget = formFieldName a) widgetAnnotations;
             formFieldToDelete = List.find (\<lambda>ff. name ff = formFieldName a) formFields
         in (widgetToDelete, formFieldToDelete,
             if widgetToDelete \<noteq> None then [Log_Strategy1] else []))
      else (None, None, []))"

text \<open>
  Strategy 2: the loop over the widgets, left at the first widget that overlaps the
  signature and is linked to a signature form field.
\<close>

fun strategy2 ::
  "bbox \<Rightarrow> annotation list \<Rightarrow> formfield list \<Rightarrow> config \<Rightarrow> (annotation \<times> formfield option) option" where
  "strategy2 signatureBBox [] formFields cfg = None"
| "strategy2 signatureBBox (widget # rest) formFields cfg =
     (let overlaps = checkBoundingBoxOverlap signatureBBox (boundingBox widget)
      in if overlaps \<and> truthy_str (formFieldName widget) then
           (let ff = List.find (\<lambda>f. name f = formFieldName widget) formFields
            in if isSignatureField ff cfg then Some (widget, ff)
               else strategy2 signatureBBox rest formFields cfg)
         else strategy2 signatureBBox rest formFields cfg)"

text \<open>
  The two strategies in sequence: the second runs when the first has left
  \<^verbatim>\<open>widgetToDelete\<close> empty, and overwrites both variables when it finds a widget.
\<close>

definition find_targets ::
  "annotation \<Rightarrow> annotation list \<Rightarrow> formfield list \<Rightarrow> config
     \<Rightarrow> annotation option \<times> formfield option \<times> event list" where
  "find_targets a widgetAnnotations formFields cfg =
     (case strategy1 a widgetAnnotations formFields of
        (widgetToDelete, formFieldToDelete, out) \<Rightarrow>
          if widgetToDelete = None then
            (case strategy2 (boundingBox a) widgetAnnotations formFields cfg of
               None \<Rightarrow> (None, formFieldToDelete, out)
             | Some (widget, ff) \<Rightarrow> (Some widget, ff, out @ [Log_Strategy2]))
          else (widgetToDelete, formFieldToDelete, out))"

subsection \<open>Deleting them\<close>

text \<open>
  Each step returns the state it leaves and the error it throws, if any. Deleting the
  widget:
\<close>

definition delete_widget ::
  "'h viewer \<Rightarrow> annotation option \<Rightarrow> 'h state \<Rightarrow> 'h state \<times> thrown option" where
  "delete_widget v widgetToDelete s =
     (case s of (h, out) \<Rightarrow>
        (case widgetToDelete of
           None \<Rightarrow> ((h, out @ [Warn_NoWidget]), None)
         | Some w \<Rightarrow>
             (case delete v h (AnnotationEntity w) of
                (h', None) \<Rightarrow>
                  ((h', out @ [Call_delete (AnnotationEntity w), Log_DeletedWidget]), None)
              | (h', Some e) \<Rightarrow> ((h', out @ [Call_delete (AnnotationEntity w)]), Some e))))"

text \<open>
  Deleting the form field, with the inner \<^verbatim>\<open>try\<close>: a failure that
  \<^verbatim>\<open>isFormFieldNotFoundError\<close> recognises is logged and dropped, any other is thrown again;
  an error thrown by \<^verbatim>\<open>isFormFieldNotFoundError\<close> itself leaves the \<^verbatim>\<open>catch\<close> in its
  place.
\<close>

definition delete_formField ::
  "'h viewer \<Rightarrow> formfield option \<Rightarrow> 'h state \<Rightarrow> 'h state \<times> thrown option" where
  "delete_formField v formFieldToDelete s =
     (case s of (h, out) \<Rightarrow>
        (case formFieldToDelete of
           None \<Rightarrow> ((h, out), None)
         | Some ff \<Rightarrow>
             (case delete v h (FormFieldEntity ff) of
                (h', None) \<Rightarrow>
                  ((h', out @ [Call_delete (FormFieldEntity ff), Log_DeletedFormField]), None)
              | (h', Some formFieldError) \<Rightarrow>
                  (case isFormFieldNotFoundError formFieldError of
                     Inl t \<Rightarrow> ((h', out @ [Call_delete (FormFieldEntity ff)]), Some t)
                   | Inr True \<Rightarrow>
                       ((h', out @ [Call_delete (FormFieldEntity ff), Log_AlreadyDeleted]), None)
                   | Inr False \<Rightarrow>
                       ((h', out @ [Call_delete (FormFieldEntity ff)]), Some formFieldError)))))"

text \<open>The body of the outer \<^verbatim>\<open>try\<close> of \<^verbatim>\<open>handleSignatureCreation\<close>.\<close>

definition cleanup_body ::
  "'h viewer \<Rightarrow> config \<Rightarrow> annotation \<Rightarrow> 'h state \<Rightarrow> 'h state \<times> thrown option" where
  "cleanup_body v cfg a s =
     (case s of (h, out) \<Rightarrow>
        (case getAnnotations v h (pageIndex a) of
           Inl e \<Rightarrow> (s, Some e)
         | Inr allAnnotations \<Rightarrow>
             (case getFormFields v h of
                Inl e \<Rightarrow> (s, Some e)
              | Inr formFields \<Rightarrow>
                  (let widgetAnnotations =
                         filter (\<lambda>ann. ann_class ann = WidgetAnnotation) allAnnotations
                   in case find_targets a widgetAnnotations formFields cfg of
                        (widgetToDelete, formFieldToDelete, found) \<Rightarrow>
                          (case delete_widget v widgetToDelete
                                  (h, out @ [Log_FoundWidgets (length widgetAnnotations)] @ found) of
                             (s', Some e) \<Rightarrow> (s', Some e)
                           | (s', None) \<Rightarrow> delete_formField v formFieldToDelete s')))))"

text \<open>
  \<^verbatim>\<open>handleSignatureCreation\<close>: the body and the outer \<^verbatim>\<open>catch\<close>. The second component
  of the result is the error with which the returned promise is rejected, if any: the
  \<^verbatim>\<open>catch\<close> handles every error of the body, and throws itself when
  \<^verbatim>\<open>isFormFieldNotFoundError\<close> throws. The wait of 100 ms before the body is not modelled.
\<close>

definition handleSignatureCreation ::
  "'h viewer \<Rightarrow> config \<Rightarrow> annotation \<Rightarrow> 'h state \<Rightarrow> 'h state \<times> thrown option" where
  "handleSignatureCreation v cfg a s =
     (case s of (h, out) \<Rightarrow>
        (case cleanup_body v cfg a (h, out @ [Log_SignatureDetected (ann_class a)]) of
           (s', None) \<Rightarrow> (s', None)
         | ((h', out'), Some error) \<Rightarrow>
             (case isFormFieldNotFoundError error of
                Inl t \<Rightarrow> ((h', out'), Some t)
              | Inr True \<Rightarrow> ((h', out' @ [Log_AlreadyDeleted]), None)
              | Inr False \<Rightarrow> ((h', out' @ [Error_Deleting error]), None))))"

text \<open>
  The handler \<^verbatim>\<open>createAnnotationHandler\<close> returns: the loop over the created annotations.
  An error thrown by \<^verbatim>\<open>handleSignatureCreation\<close> would leave the loop and reject the
  promise of the handler.
\<close>

fun annotationHandler ::
  "'h viewer \<Rightarrow> config \<Rightarrow> annotation list \<Rightarrow> 'h state \<Rightarrow> 'h state \<times> thrown option" where
  "annotationHandler v cfg [] s = (s, None)"
| "annotationHandler v cfg (a # rest) s =
     (let isInkAnnotation = (ann_class a = InkAnnotation);
          isImageAnnotation = (ann_class a = ImageAnnotation)
      in if isInkAnnotation \<or> isImageAnnotation then
           (case handleSignatureCreation v cfg a s of
              (s', None) \<Rightarrow> annotationHandler v cfg rest s'
            | (s', Some e) \<Rightarrow> (s', Some e))
         else annotationHandler v cfg rest s)"

subsection \<open>Configuration objects and their merging\<close>

text \<open>
  The two places that merge the configuration of the caller with the defaults work on
  plain objects, where any property may be missing.
\<close>

text \<open>
  Reading a property: \<^verbatim>\<open>undefined\<close> when the object has no such property. Read on a
  value that is no object, it stands for the optional chain \<^verbatim>\<open>v?.k\<close>.
\<close>

fun get_prop :: "jsval \<Rightarrow> string \<Rightarrow> jsval" where
  "get_prop (JObj ps) k = (case map_of ps k of None \<Rightarrow> JUndefined | Some v \<Rightarrow> v)"
| "get_prop v k = JUndefined"

definition get_path :: "jsval \<Rightarrow> string list \<Rightarrow> jsval" where
  "get_path v ks = foldl get_prop v ks"

text \<open>
  The properties a spread \<^verbatim>\<open>...v\<close> copies: those of an object, none of
  \<^verbatim>\<open>undefined\<close>, \<^verbatim>\<open>null\<close>, a boolean or a number. (No string is ever spread here.)
\<close>

fun own_props :: "jsval \<Rightarrow> (string \<times> jsval) list" where
  "own_props (JObj ps) = ps"
| "own_props v = []"

text \<open>
  An object literal is a sequence of spreads and of properties, taken from left to right:
  a key that is already there keeps its place and takes the new value, a new key goes to
  the end.
\<close>

datatype part = Spread jsval | Prop string jsval

definition spread :: "jsval \<Rightarrow> (string \<times> jsval) list \<Rightarrow> (string \<times> jsval) list" where
  "spread src obj = fold (\<lambda>kv. AList.update (fst kv) (snd kv)) (own_props src) obj"

definition literal :: "part list \<Rightarrow> jsval" where
  "literal parts =
     JObj (foldl (\<lambda>obj p. case p of Spread v \<Rightarrow> spread v obj | Prop k v \<Rightarrow> AList.update k v obj)
             [] parts)"

text \<open>A configuration as the object it is; a date option that is left out has no key.\<close>

definition opt_prop :: "string \<Rightarrow> ('a \<Rightarrow> jsval) \<Rightarrow> 'a option \<Rightarrow> part list" where
  "opt_prop k f x = (case x of None \<Rightarrow> [] | Some y \<Rightarrow> [Prop k (f y)])"

definition config_object :: "config \<Rightarrow> jsval" where
  "config_object c =
     literal
       [Prop ''curve'' (literal
          [Prop ''color'' (JStr (curve_color (curve c))),
           Prop ''strokeWidth'' (JStr (strokeWidth (curve c))),
           Prop ''topLengthRatio'' (JNum (topLengthRatio (curve c))),
           Prop ''topLengthMax'' (JNum (topLengthMax (curve c))),
           Prop ''bottomLengthRatio'' (JNum (bottomLengthRatio (curve c))),
           Prop ''bottomLengthMax'' (JNum (bottomLengthMax (curve c)))]),
        Prop ''text'' (literal
          [Prop ''color'' (JStr (text_color (text_cfg c))),
           Prop ''fontFamily'' (JStr (fontFamily (text_cfg c))),
           Prop ''fontSize'' (literal
             [Prop ''top'' (JNum (fontSize_top (fontSize (text_cfg c)))),
              Prop ''bottom'' (JNum (fontSize_bottom (fontSize (text_cfg c))))]),
           Prop ''gap'' (JNum (gap (text_cfg c)))]),
        Prop ''position'' (literal
          [Prop ''svgTopOffset'' (JNum (svgTopOffset (position c))),
           Prop ''svgLeftOffset'' (JNum (svgLeftOffset (position c))),
           Prop ''topLabelOffset'' (JNum (topLabelOffset (position c))),
           Prop ''bottomLabelOffset'' (JNum (bottomLabelOffset (position c)))]),
        Prop ''signatureIdentifiers'' (literal
          [Prop ''typeCode'' (JStr (typeCode (signatureIdentifiers c))),
           Prop ''namePattern'' (JStr (namePattern (signatureIdentifiers c)))]),
        Prop ''defaults'' (literal
          [Prop ''signerName'' (JStr (signerName (defaults c)))]),
        Prop ''dateTimeFormat'' (literal
          (opt_prop ''year'' JStr (year (dateTimeFormat c)) @
           opt_prop ''month'' JStr (month (dateTimeFormat c)) @
           opt_prop ''day'' JStr (day (dateTimeFormat c)) @
           opt_prop ''hour'' JStr (hour (dateTimeFormat c)) @
           opt_prop ''minute'' JStr (minute (dateTimeFormat c)) @
           opt_prop ''second'' JStr (second (dateTimeFormat c)) @
           opt_prop ''hour12'' JBool (hour12 (dateTimeFormat c))))]"

text \<open>The merge at the head of \<^verbatim>\<open>createSignatureRenderer\<close>.\<close>

definition createSignatureRenderer_config :: "jsval \<Rightarrow> jsval" where
  "createSignatureRenderer_config customConfig =
     (let DEFAULTS = config_object DEFAULT_CONFIG
      in literal
           [Spread DEFAULTS,
            Spread customConfig,
            Prop ''curve'' (literal
              [Spread (get_prop DEFAULTS ''curve''), Spread (get_prop customConfig ''curve'')]),
            Prop ''text'' (literal
              [Spread (get_prop DEFAULTS ''text''),
               Spread (get_prop customConfig ''text''),
               Prop ''fontSize'' (literal
                 [Spread (get_path DEFAULTS [''text'', ''fontSize'']),
                  Spread (get_path customConfig [''text'', ''fontSize''])])]),
            Prop ''position'' (literal
              [Spread (get_prop DEFAULTS ''position''), Spread (get_prop customConfig ''position'')]),
            Prop ''signatureIdentifiers'' (literal
              [Spread (get_prop DEFAULTS ''signatureIdentifiers''),
               Spread (get_prop customConfig ''signatureIdentifiers'')]),
            Prop ''defaults'' (literal
              [Spread (get_prop DEFAULTS ''defaults''), Spread (get_prop customConfig ''defaults'')])])"

text \<open>The merge at the head of \<^verbatim>\<open>initializeSignatureDecorator\<close>.\<close>

definition initializeSignatureDecorator_config :: "jsval \<Rightarrow> jsval" where
  "initializeSignatureDecorator_config options_config =
     literal [Spread (config_object DEFAULT_CONFIG), Spread options_config]"

text \<open>
  The leaf fields of a configuration, as paths from the root, and the test that a merged
  configuration defines each of them.
\<close>

fun leaf_paths :: "jsval \<Rightarrow> string list list" where
  "leaf_paths (JObj ps) = concat (map (\<lambda>kv. map ((#) (fst kv)) (leaf_paths (snd kv))) ps)"
| "leaf_paths v = [[]]"

definition every_leaf_defined :: "jsval \<Rightarrow> bool" where
  "every_leaf_defined merged =
     list_all (\<lambda>p. get_path merged p \<noteq> JUndefined) (leaf_paths (config_object DEFAULT_CONFIG))"

text \<open>
  An object none of whose own properties holds \<^verbatim>\<open>undefined\<close>, and an override whose
  subtrees are such objects where they are given at all.
\<close>

definition no_undefined_props :: "jsval \<Rightarrow> bool" where
  "no_undefined_props v = list_all (\<lambda>kv. snd kv \<noteq> JUndefined) (own_props v)"

definition plain_override :: "jsval \<Rightarrow> bool" where
  "plain_override c =
     (no_undefined_props c \<and>
      list_all (\<lambda>p. no_undefined_props (get_path c p))
        [[''curve''], [''text''], [''text'', ''fontSize''], [''position''],
         [''signatureIdentifiers''], [''defaults'']])"

text \<open>
  The override in the example of the documentation of \<^verbatim>\<open>initializeSignatureDecorator\<close>,
  and two more: one that changes the type code only, one that changes the clock only.
\<close>

definition documented_override :: jsval where
  "documented_override =
     literal [Prop ''curve'' (literal [Prop ''color'' (JStr ''#FF0000'')]),
              Prop ''text'' (literal [Prop ''color'' (JStr ''#0000FF'')])]"

definition typeCode_override :: jsval where
  "typeCode_override =
     literal [Prop ''signatureIdentifiers'' (literal [Prop ''typeCode'' (JStr ''Sig'')])]"

definition hour12_override :: jsval where
  "hour12_override =
     literal [Prop ''dateTimeFormat'' (literal [Prop ''hour12'' (JBool False)])]"

subsection \<open>Inputs used in the examples\<close>

text \<open>The default configuration with a negative ratio for the upper curve.\<close>

definition negative_ratio_config :: config where
  "negative_ratio_config =
     DEFAULT_CONFIG\<lparr>curve := (curve DEFAULT_CONFIG)\<lparr>topLengthRatio := - 1\<rparr>\<rparr>"

text \<open>A form field as the viewer builds it for a signature, under a name of its own.\<close>

definition approval_field :: formfield where
  "approval_field = \<lparr>constructor_name = Some ''SignatureFormField'', name = Some ''approval''\<rparr>"

text \<open>A clock that stands still, in the place of \<^verbatim>\<open>getCurrentDateTime\<close>.\<close>

definition fixed_clock :: "dateTimeFormat_config \<Rightarrow> string" where
  "fixed_clock fmt = ''11/02/2026, 09:00:00 AM''"

text \<open>The ink annotation of the end-to-end scenarios, signed by Bob.\<close>

definition bob_annotation :: annotation where
  "bob_annotation =
     \<lparr>ann_class = InkAnnotation, pageIndex = 0,
      boundingBox = \<lparr>left = 100, top_edge = 100, width = 150, height = 50\<rparr>,
      customData = Some \<lparr>cd_isSignature = None, cd_signerName = Some ''Bob''\<rparr>,
      isSignature = None, formFieldName = None\<rparr>"

text \<open>
  Three annotations that are neither ink nor image: one marked as a signature in its
  custom data, one marked on itself, one whose mark in the custom data is false.
\<close>

definition marked_in_data :: annotation where
  "marked_in_data =
     \<lparr>ann_class = OtherAnnotation, pageIndex = 0,
      boundingBox = \<lparr>left = 10, top_edge = 10, width = 100, height = 40\<rparr>,
      customData = Some \<lparr>cd_isSignature = Some True, cd_signerName = None\<rparr>,
      isSignature = None, formFieldName = None\<rparr>"

definition marked_on_itself :: annotation where
  "marked_on_itself =
     \<lparr>ann_class = OtherAnnotation, pageIndex = 0,
      boundingBox = \<lparr>left = 10, top_edge = 10, width = 100, height = 40\<rparr>,
      customData = None, isSignature = Some True, formFieldName = None\<rparr>"

definition not_marked :: annotation where
  "not_marked =
     \<lparr>ann_class = OtherAnnotation, pageIndex = 0,
      boundingBox = \<lparr>left = 10, top_edge = 10, width = 100, height = 40\<rparr>,
      customData = Some \<lparr>cd_isSignature = Some False, cd_signerName = Some ''Bob''\<rparr>,
      isSignature = None, formFieldName = None\<rparr>"

text \<open>
  Errors a viewer may fail with: two with a message as \<^verbatim>\<open>Error\<close> objects have it, and an
  object whose message is the number 42.
\<close>

definition permission_denied :: thrown where
  "permission_denied = Single (ErrObject (JStr ''Permission denied''))"

definition no_such_field :: thrown where
  "no_such_field = Single (ErrObject (JStr ''There is no form field with this name''))"

definition numeric_message :: thrown where
  "numeric_message = Single (ErrObject (JNum 42))"

text \<open>
  A viewer to run the handler on: a document is the list of its annotations and the list
  of its form fields. In an editable document, deleting a widget takes the form field of
  its name along, as the real viewer often does, and deleting a form field that is not
  there fails. When the fields are locked, no form field is removed and deleting one is
  refused; a read-only document refuses every deletion. The viewer refuses with the error
  \<open>refusal\<close>.
\<close>

datatype protection = Editable | FieldsLocked | ReadOnly

record document =
  doc_annotations :: "annotation list"
  doc_formFields :: "formfield list"
  doc_protection :: protection

definition example_viewer :: "thrown \<Rightarrow> document viewer" where
  "example_viewer refusal =
     \<lparr>getAnnotations = (\<lambda>h p. Inr (filter (\<lambda>a. pageIndex a = p) (doc_annotations h))),
      getFormFields = (\<lambda>h. Inr (doc_formFields h)),
      delete = (\<lambda>h e.
        case e of
          AnnotationEntity a \<Rightarrow>
            (case doc_protection h of
               ReadOnly \<Rightarrow> (h, Some refusal)
             | FieldsLocked \<Rightarrow> (h\<lparr>doc_annotations := removeAll a (doc_annotations h)\<rparr>, None)
             | Editable \<Rightarrow>
                 (h\<lparr>doc_annotations := removeAll a (doc_annotations h),
                    doc_formFields :=
                      filter (\<lambda>f. name f \<noteq> formFieldName a) (doc_formFields h)\<rparr>, None))
        | FormFieldEntity f \<Rightarrow>
            (case doc_protection h of
               Editable \<Rightarrow>
                 if f \<in> set (doc_formFields h)
                 then (h\<lparr>doc_formFields := removeAll f (doc_formFields h)\<rparr>, None)
                 else (h, Some no_such_field)
             | _ \<Rightarrow> (h, Some refusal)))\<rparr>"

text \<open>
  A page with two signature widgets: the first, for the field \<^verbatim>\<open>SIGNATURE_2\<close>, covers the
  place of the second, for the field \<^verbatim>\<open>Sig1\<close>.
\<close>

definition widget_other :: annotation where
  "widget_other =
     \<lparr>ann_class = WidgetAnnotation, pageIndex = 0,
      boundingBox = \<lparr>left = 90, top_edge = 90, width = 200, height = 100\<rparr>,
      customData = None, isSignature = None, formFieldName = Some ''SIGNATURE_2''\<rparr>"

definition widget_sig1 :: annotation where
  "widget_sig1 =
     \<lparr>ann_class = WidgetAnnotation, pageIndex = 0,
      boundingBox = \<lparr>left = 100, top_edge = 100, width = 150, height = 50\<rparr>,
      customData = None, isSignature = None, formFieldName = Some ''Sig1''\<rparr>"

definition field_other :: formfield where
  "field_other = \<lparr>constructor_name = Some ''SignatureFormField'', name = Some ''SIGNATURE_2''\<rparr>"

definition field_sig1 :: formfield where
  "field_sig1 = \<lparr>constructor_name = Some ''SignatureFormField'', name = Some ''Sig1''\<rparr>"

definition ink_sig1 :: annotation where
  "ink_sig1 =
     \<lparr>ann_class = InkAnnotation, pageIndex = 0,
      boundingBox = \<lparr>left = 100, top_edge = 100, width = 150, height = 50\<rparr>,
      customData = None, isSignature = None, formFieldName = Some ''Sig1''\<rparr>"

definition image_sig2 :: annotation where
  "image_sig2 =
     \<lparr>ann_class = ImageAnnotation, pageIndex = 0,
      boundingBox = \<lparr>left = 95, top_edge = 95, width = 20, height = 20\<rparr>,
      customData = None, isSignature = None, formFieldName = Some ''SIGNATURE_2''\<rparr>"

definition example_document :: "protection \<Rightarrow> document" where
  "example_document p =
     \<lparr>doc_annotations = [widget_other, widget_sig1],
      doc_formFields = [field_other, field_sig1],
      doc_protection = p\<rparr>"

section \<open>Properties\<close>

subsection \<open>Overlap of bounding boxes\<close>

lemma closed_intervals_meet:
  fixes a b c d :: real
  shows "{a..b} \<inter> {c..d} \<noteq> {} \<longleftrightarrow> a \<le> b \<and> c \<le> d \<and> a \<le> d \<and> c \<le> b"
proof
  assume "{a..b} \<inter> {c..d} \<noteq> {}"
  then obtain x where "x \<in> {a..b} \<inter> {c..d}" by blast
  then have "a \<le> x" "x \<le> b" "c \<le> x" "x \<le> d" by simp_all
  then show "a \<le> b \<and> c \<le> d \<and> a \<le> d \<and> c \<le> b" by linarith
next
  assume h: "a \<le> b \<and> c \<le> d \<and> a \<le> d \<and> c \<le> b"
  then have "max a c \<in> {a..b} \<inter> {c..d}" by auto
  then show "{a..b} \<inter> {c..d} \<noteq> {}" by blast
qed

lemma overlap_iff_projections:
  assumes "valid_bbox a" and "valid_bbox b"
  shows "checkBoundingBoxOverlap a b \<longleftrightarrow> projections_intersect a b"
  using assms
  unfolding checkBoundingBoxOverlap_def projections_intersect_def x_projection_def
    y_projection_def valid_bbox_def closed_intervals_meet
  by auto

text \<open>
  C2. For bounding boxes (width and height not negative), \<^verbatim>\<open>checkBoundingBoxOverlap\<close>
  reports an overlap exactly when the projections of the two boxes intersect on the
  horizontal and on the vertical axis; boxes that only touch at an edge are reported as
  overlapping, the comparisons for disjointness being strict.
\<close>

theorem checkBoundingBoxOverlap_projections:
  assumes "valid_bbox a" and "valid_bbox b"
  shows "(checkBoundingBoxOverlap a b \<longleftrightarrow> projections_intersect a b) \<and>
         (touch_at_edge a b \<longrightarrow> checkBoundingBoxOverlap a b)"
  using overlap_iff_projections [OF assms] by (simp add: touch_at_edge_def)

theorem checkBoundingBoxOverlap_projections_witness:
  "valid_bbox \<lparr>left = 0, top_edge = 0, width = 10, height = 10\<rparr> \<and>
   valid_bbox \<lparr>left = 10, top_edge = 2, width = 5, height = 5\<rparr> \<and>
   touch_at_edge \<lparr>left = 0, top_edge = 0, width = 10, height = 10\<rparr>
                 \<lparr>left = 10, top_edge = 2, width = 5, height = 5\<rparr> \<and>
   checkBoundingBoxOverlap \<lparr>left = 0, top_edge = 0, width = 10, height = 10\<rparr>
                           \<lparr>left = 10, top_edge = 2, width = 5, height = 5\<rparr>"
proof -
  let ?a = "\<lparr>left = 0, top_edge = 0, width = 10, height = 10\<rparr>"
  let ?b = "\<lparr>left = 10, top_edge = 2, width = 5, height = 5\<rparr>"
  have va: "valid_bbox ?a" and vb: "valid_bbox ?b" by (simp_all add: valid_bbox_def)
  have t: "touch_at_edge ?a ?b"
    by (simp add: touch_at_edge_def projections_intersect_def x_projection_def
        y_projection_def closed_intervals_meet)
  from checkBoundingBoxOverlap_projections [OF va vb] t va vb show ?thesis by blast
qed

text \<open>
  C9. The overlap test does not depend on the order of its two arguments.
\<close>

theorem checkBoundingBoxOverlap_symmetric:
  "checkBoundingBoxOverlap a b = checkBoundingBoxOverlap b a"
  unfolding checkBoundingBoxOverlap_def by auto

subsection \<open>Lengths of the curves\<close>

lemma min_mult_mono:
  fixes r m w w' :: real
  assumes "0 \<le> r" and "w \<le> w'"
  shows "min (w * r) m \<le> min (w' * r) m"
proof -
  from assms have "w * r \<le> w' * r" by (rule mult_right_mono[rotated])
  then show ?thesis by (simp add: min_le_iff_disj)
qed

lemma min_mult_capped:
  fixes r m w w' :: real
  assumes "0 \<le> r" and "w \<le> w'" and "m \<le> w * r"
  shows "min (w' * r) m = m"
proof -
  from assms have "w * r \<le> w' * r" by (simp add: mult_right_mono)
  with assms(3) show ?thesis by simp
qed

text \<open>
  C5, as stated, fails for a configuration with a negative ratio: the length of the upper
  curve then falls as the width grows, before any cap is reached. Here the widths are 0
  and 1 and the ratio is -1.
\<close>

theorem curve_length_counterexample:
  "(0::real) \<le> 0 \<and> (0::real) \<le> 1 \<and>
   0 * topLengthRatio (curve negative_ratio_config) < topLengthMax (curve negative_ratio_config) \<and>
   curve_length (createTopCurve 1 negative_ratio_config)
     < curve_length (createTopCurve 0 negative_ratio_config)"
  by (simp add: createTopCurve_def negative_ratio_config_def DEFAULT_CONFIG_def Let_def)

text \<open>
  C5, amended. For every width and configuration the length of the upper curve is
  \<open>min (w * topLengthRatio) topLengthMax\<close> and the length of the lower curve is
  \<open>min (w * bottomLengthRatio) bottomLengthMax\<close>. When the ratio is not negative, the
  length does not decrease as a width \<open>w \<ge> 0\<close> grows to \<open>w'\<close>, and once \<open>w\<close> times the ratio
  has reached the cap the length is the cap at every larger width.
\<close>

theorem curve_lengths:
  fixes w w' h h' :: real
  shows "curve_length (createTopCurve w cfg)
     = min (w * topLengthRatio (curve cfg)) (topLengthMax (curve cfg)) \<and>
   curve_length (createBottomCurve h w cfg)
     = min (w * bottomLengthRatio (curve cfg)) (bottomLengthMax (curve cfg)) \<and>
   (0 \<le> topLengthRatio (curve cfg) \<and> 0 \<le> w \<and> w \<le> w' \<longrightarrow>
      curve_length (createTopCurve w cfg) \<le> curve_length (createTopCurve w' cfg) \<and>
      (topLengthMax (curve cfg) \<le> w * topLengthRatio (curve cfg) \<longrightarrow>
         curve_length (createTopCurve w' cfg) = topLengthMax (curve cfg))) \<and>
   (0 \<le> bottomLengthRatio (curve cfg) \<and> 0 \<le> w \<and> w \<le> w' \<longrightarrow>
      curve_length (createBottomCurve h w cfg) \<le> curve_length (createBottomCurve h' w' cfg) \<and>
      (bottomLengthMax (curve cfg) \<le> w * bottomLengthRatio (curve cfg) \<longrightarrow>
         curve_length (createBottomCurve h' w' cfg) = bottomLengthMax (curve cfg)))"
proof -
  have upper: "curve_length (createTopCurve v cfg)
      = min (v * topLengthRatio (curve cfg)) (topLengthMax (curve cfg))" for v
    by (simp add: createTopCurve_def Let_def)
  have lower: "curve_length (createBottomCurve k v cfg)
      = min (v * bottomLengthRatio (curve cfg)) (bottomLengthMax (curve cfg))" for k v
    by (simp add: createBottomCurve_def Let_def)
  show ?thesis
    unfolding upper lower using min_mult_mono min_mult_capped by blast
qed

theorem curve_lengths_witness:
  "curve_length (createTopCurve 200 DEFAULT_CONFIG) = 50 \<and>
   curve_length (createTopCurve 100 DEFAULT_CONFIG) = 25 \<and>
   curve_length (createTopCurve 100 DEFAULT_CONFIG) \<le> curve_length (createTopCurve 200 DEFAULT_CONFIG) \<and>
   curve_length (createTopCurve 300 DEFAULT_CONFIG) = 50 \<and>
   curve_length (createBottomCurve 50 200 DEFAULT_CONFIG) = 70 \<and>
   curve_length (createBottomCurve 50 300 DEFAULT_CONFIG) = 70"
  using curve_lengths [of 200 DEFAULT_CONFIG 50 300 50] curve_lengths [of 100 DEFAULT_CONFIG 50 200 50]
  by (simp add: DEFAULT_CONFIG_def)

subsection \<open>Signature form fields\<close>

text \<open>
  C6, as stated, fails for a field whose constructor is named \<^verbatim>\<open>SignatureFormField\<close>:
  under the default configuration it is classified as a signature field although its
  type name is not the type code \<^verbatim>\<open>S\<close> and its name does not contain \<^verbatim>\<open>SIGNATURE\<close>.
\<close>

theorem isSignatureField_counterexample:
  "isSignatureField (Some approval_field) DEFAULT_CONFIG \<and>
   \<not> (or_empty (constructor_name approval_field) = typeCode (signatureIdentifiers DEFAULT_CONFIG) \<or>
      sublist (namePattern (signatureIdentifiers DEFAULT_CONFIG)) (or_empty (name approval_field)))"
proof -
  have a: "sublist ''Signature'' ''SignatureFormField''" by code_simp
  have b: "\<not> sublist ''SIGNATURE'' ''approval''" by code_simp
  show ?thesis using a b
    by (simp add: isSignatureField_def includes_str_def or_empty_def DEFAULT_CONFIG_def
        approval_field_def Let_def)
qed

text \<open>
  C6, amended. A missing form field is not a signature field. A form field is a signature
  field exactly when the name of its constructor contains \<^verbatim>\<open>Signature\<close>, or equals the
  configured type code, or the name of the field contains the configured marker; an
  absent constructor name or field name counts as the empty string.
\<close>

theorem isSignatureField_iff:
  "\<not> isSignatureField None cfg \<and>
   (isSignatureField (Some ff) cfg \<longleftrightarrow>
      sublist ''Signature'' (or_empty (constructor_name ff)) \<or>
      or_empty (constructor_name ff) = typeCode (signatureIdentifiers cfg) \<or>
      sublist (namePattern (signatureIdentifiers cfg)) (or_empty (name ff)))"
  by (simp add: isSignatureField_def includes_str_def Let_def)

subsection \<open>Recognising a form field that is already gone\<close>

lemma there_is_includes_no:
  "sublist ''There is no form field'' m \<Longrightarrow> sublist ''no form field'' m"
proof -
  have "sublist ''no form field'' ''There is no form field''"
    by code_simp
  then show "sublist ''There is no form field'' m \<Longrightarrow> sublist ''no form field'' m"
    by (rule sublist_order.order_trans)
qed

lemma string_message_matches:
  "message_matches (ErrObject (JStr s)) = Inr (sublist ''no form field'' s)"
  using there_is_includes_no [of s]
  by (auto simp: message_matches_def includes_str_def split: bool.splits)

lemma empty_message_matches:
  "message_matches ErrUndefined = Inr False" "message_matches ErrNull = Inr False"
  "\<not> truthy m \<Longrightarrow> message_matches (ErrObject m) = Inr False"
  by (simp_all add: message_matches_def includes_str_def)

lemma text_message_matches:
  assumes "message_is_text x"
  shows "message_matches x = Inr (\<exists>m. x = ErrObject (JStr m) \<and> sublist ''no form field'' m)"
proof (cases x)
  case (ErrObject v)
  with assms show ?thesis
    by (cases v) (simp_all add: string_message_matches empty_message_matches)
qed (simp_all add: empty_message_matches)

lemma some_text_messages:
  assumes "\<forall>x \<in> set xs. message_is_text x"
  shows "some message_matches xs =
           Inr (\<exists>x \<in> set xs. \<exists>m. x = ErrObject (JStr m) \<and> sublist ''no form field'' m)"
  using assms
proof (induction xs)
  case Nil
  show ?case by simp
next
  case (Cons x xs)
  then have x: "message_matches x = Inr (\<exists>m. x = ErrObject (JStr m) \<and> sublist ''no form field'' m)"
    and rest: "some message_matches xs =
           Inr (\<exists>x \<in> set xs. \<exists>m. x = ErrObject (JStr m) \<and> sublist ''no form field'' m)"
    by (simp_all add: text_message_matches)
  show ?case
    by (auto simp: x rest split: bool.splits)
qed

lemma text_error_recognised:
  assumes "messages_are_text e"
  shows "isFormFieldNotFoundError e =
           Inr (\<exists>x \<in> set (errors_of e). \<exists>m. x = ErrObject (JStr m) \<and> sublist ''no form field'' m)"
  using assms some_text_messages [of "errors_of e"]
  by (simp add: isFormFieldNotFoundError_def messages_are_text_def list_all_iff)

text \<open>
  C10, as stated, fails for an error value whose message is the number 42: the call of
  \<^verbatim>\<open>includes\<close> on it throws a \<^verbatim>\<open>TypeError\<close>, for the value alone and for an array in which
  it stands before a message that would match.
\<close>

theorem isFormFieldNotFoundError_counterexample:
  "isFormFieldNotFoundError (Single (ErrObject (JNum 42))) = Inl not_a_function \<and>
   isFormFieldNotFoundError
     (Array [ErrObject (JNum 42), ErrObject (JStr ''There is no form field'')]) = Inl not_a_function"
  by (simp add: isFormFieldNotFoundError_def message_matches_def)

text \<open>
  C10, amended. For a single error value, and for an array of error values, whose
  messages are strings where they are more than a value that \<^verbatim>\<open>|| ""\<close> replaces,
  \<^verbatim>\<open>isFormFieldNotFoundError\<close> returns a truth value: true exactly when one of the values
  has a string message that contains \<^verbatim>\<open>no form field\<close>. The values null and undefined and
  an object without a message make it return false.
\<close>

theorem isFormFieldNotFoundError_text:
  "(message_is_text x \<longrightarrow>
      isFormFieldNotFoundError (Single x) =
        Inr (\<exists>m. x = ErrObject (JStr m) \<and> sublist ''no form field'' m)) \<and>
   ((\<forall>x \<in> set xs. message_is_text x) \<longrightarrow>
      isFormFieldNotFoundError (Array xs) =
        Inr (\<exists>x \<in> set xs. \<exists>m. x = ErrObject (JStr m) \<and> sublist ''no form field'' m)) \<and>
   isFormFieldNotFoundError (Single ErrNull) = Inr False \<and>
   isFormFieldNotFoundError (Single ErrUndefined) = Inr False \<and>
   isFormFieldNotFoundError (Single (ErrObject JUndefined)) = Inr False"
  using text_error_recognised [of "Single x"] text_error_recognised [of "Array xs"]
    text_error_recognised [of "Single ErrNull"] text_error_recognised [of "Single ErrUndefined"]
    text_error_recognised [of "Single (ErrObject JUndefined)"]
  by (simp add: messages_are_text_def list_all_iff)

theorem isFormFieldNotFoundError_text_witness:
  "list_all message_is_text
     [ErrNull, ErrObject JUndefined, ErrObject (JStr ''There is no form field named Sig1'')] \<and>
   isFormFieldNotFoundError
     (Array [ErrNull, ErrObject JUndefined, ErrObject (JStr ''There is no form field named Sig1'')])
     = Inr True \<and>
   list_all message_is_text
     [ErrNull, ErrUndefined, ErrObject (JNum 0), ErrObject (JStr ''Permission denied'')] \<and>
   isFormFieldNotFoundError
     (Array [ErrNull, ErrUndefined, ErrObject (JNum 0), ErrObject (JStr ''Permission denied'')])
     = Inr False"
proof -
  have a: "sublist ''no form field'' ''There is no form field named Sig1''" by code_simp
  have b: "\<not> sublist ''no form field'' ''Permission denied''" by code_simp
  show ?thesis
    using isFormFieldNotFoundError_text
      [of ErrNull "[ErrNull, ErrObject JUndefined, ErrObject (JStr ''There is no form field named Sig1'')]"]
      isFormFieldNotFoundError_text
      [of ErrNull "[ErrNull, ErrUndefined, ErrObject (JNum 0), ErrObject (JStr ''Permission denied'')]"]
      a b
    by simp
qed

subsection \<open>The renderer\<close>

text \<open>
  C8. The renderer produces an overlay exactly for an ink annotation, an image annotation,
  an annotation whose custom data hold a true \<^verbatim>\<open>isSignature\<close>, and an annotation that
  holds a true \<^verbatim>\<open>isSignature\<close> itself; for any other annotation it returns null.
\<close>

theorem signatureRenderer_overlay_iff:
  "signatureRenderer loggedInUser cfg now a \<noteq> None \<longleftrightarrow>
     ann_class a = InkAnnotation \<or> ann_class a = ImageAnnotation \<or>
     (\<exists>cd. customData a = Some cd \<and> cd_isSignature cd = Some True) \<or>
     isSignature a = Some True"
  by (auto simp: signatureRenderer_def Let_def customData_of_def truthy_flag_def
      split: option.splits)

theorem signatureRenderer_overlay_iff_witness:
  "signatureRenderer (Some ''Alice'') DEFAULT_CONFIG fixed_clock marked_in_data \<noteq> None \<and>
   signatureRenderer (Some ''Alice'') DEFAULT_CONFIG fixed_clock marked_on_itself \<noteq> None \<and>
   signatureRenderer (Some ''Alice'') DEFAULT_CONFIG fixed_clock bob_annotation \<noteq> None \<and>
   signatureRenderer (Some ''Alice'') DEFAULT_CONFIG fixed_clock not_marked = None \<and>
   signatureRenderer (Some ''Alice'') DEFAULT_CONFIG fixed_clock widget_sig1 = None"
  using signatureRenderer_overlay_iff [of "Some ''Alice''" DEFAULT_CONFIG fixed_clock marked_in_data]
    signatureRenderer_overlay_iff [of "Some ''Alice''" DEFAULT_CONFIG fixed_clock marked_on_itself]
    signatureRenderer_overlay_iff [of "Some ''Alice''" DEFAULT_CONFIG fixed_clock bob_annotation]
    signatureRenderer_overlay_iff [of "Some ''Alice''" DEFAULT_CONFIG fixed_clock not_marked]
    signatureRenderer_overlay_iff [of "Some ''Alice''" DEFAULT_CONFIG fixed_clock widget_sig1]
  by (simp add: marked_in_data_def marked_on_itself_def bob_annotation_def not_marked_def
      widget_sig1_def)

text \<open>
  C7. For an annotation that qualifies, the renderer returns an overlay whose upper label
  reads \<^verbatim>\<open>By\<close> and the signer: the signer name of the custom data when there is one, else
  the logged-in user when there is one, else the default signer name of the
  configuration. A name is there when the property holds a string that is not empty.
\<close>

theorem signatureRenderer_signer:
  assumes "ann_class a = InkAnnotation \<or> ann_class a = ImageAnnotation \<or>
     truthy_flag (cd_isSignature (customData_of a)) \<or> truthy_flag (isSignature a)"
  shows "\<exists>ov topLabel bottomLabel.
     signatureRenderer loggedInUser cfg now a = Some ov \<and>
     labels (node ov) = [topLabel, bottomLabel] \<and>
     textContent topLabel = ''By '' @
       (case cd_signerName (customData_of a) of
          Some (c # cs) \<Rightarrow> c # cs
        | _ \<Rightarrow> (case loggedInUser of
                  Some (c # cs) \<Rightarrow> c # cs
                | _ \<Rightarrow> signerName (defaults cfg)))"
  using assms
  by (auto simp: signatureRenderer_def Let_def createTopLabel_def truthy_str_def or_empty_def
      split: option.splits list.splits)

theorem signatureRenderer_signer_witness:
  "ann_class bob_annotation = InkAnnotation \<and>
   (\<exists>ov topLabel bottomLabel.
      signatureRenderer (Some ''Alice'') DEFAULT_CONFIG fixed_clock bob_annotation = Some ov \<and>
      labels (node ov) = [topLabel, bottomLabel] \<and>
      textContent topLabel = ''By Bob'')"
proof -
  have q: "ann_class bob_annotation = InkAnnotation" by (simp add: bob_annotation_def)
  then have "ann_class bob_annotation = InkAnnotation \<or> ann_class bob_annotation = ImageAnnotation \<or>
     truthy_flag (cd_isSignature (customData_of bob_annotation)) \<or>
     truthy_flag (isSignature bob_annotation)" by simp
  from signatureRenderer_signer [OF this, of "Some ''Alice''" DEFAULT_CONFIG fixed_clock] q
  show ?thesis by (simp add: bob_annotation_def customData_of_def)
qed

subsection \<open>Order of the two matching strategies\<close>

lemma find_first_exists:
  assumes "\<exists>x \<in> set xs. P x"
  shows "\<exists>y. List.find P xs = Some y \<and> y \<in> set xs \<and> P y"
  using assms by (induction xs) auto

lemma find_targets_strategy1:
  assumes "formFieldName a = Some n" and "n \<noteq> []"
    and "List.find (\<lambda>widget. formFieldName widget = Some n) ws = Some w"
  shows "find_targets a ws ffs cfg =
           (Some w, List.find (\<lambda>ff. name ff = Some n) ffs, [Log_Strategy1])"
  using assms by (simp add: find_targets_def strategy1_def truthy_str_def Let_def)

lemma handle_strategy1:
  assumes "getAnnotations v h (pageIndex a) = Inr anns" and "getFormFields v h = Inr ffs"
    and "formFieldName a = Some n" and "n \<noteq> []"
    and "List.find (\<lambda>widget. formFieldName widget = Some n)
           (filter (\<lambda>ann. ann_class ann = WidgetAnnotation) anns) = Some w"
  shows "\<exists>h' rest.
           fst (handleSignatureCreation v cfg a (h, out)) =
             (h', out @ [Log_SignatureDetected (ann_class a),
                         Log_FoundWidgets (length (filter (\<lambda>ann. ann_class ann = WidgetAnnotation) anns)),
                         Log_Strategy1, Call_delete (AnnotationEntity w)] @ rest) \<and>
           Log_Strategy2 \<notin> set rest"
  using assms
  by (auto simp: handleSignatureCreation_def cleanup_body_def Let_def find_targets_strategy1
      delete_widget_def delete_formField_def split: prod.splits option.splits sum.splits bool.splits)

text \<open>
  C3. When the created annotation carries a form field name (a string that is not empty)
  and a widget of the fetched list has that name, the first such widget and the form field
  of that name are the ones chosen for deletion, by strategy 1 alone: whatever the
  bounding boxes, the other widgets and the configuration are, the trace has the entry of
  strategy 1, then the call that deletes this widget, and no entry of strategy 2.
\<close>

theorem strategy1_takes_precedence:
  assumes "formFieldName a = Some n" and "n \<noteq> []"
    and "widgetAnnotations = filter (\<lambda>ann. ann_class ann = WidgetAnnotation) allAnnotations"
    and "\<exists>widget \<in> set widgetAnnotations. formFieldName widget = Some n"
  shows "\<exists>w. w \<in> set widgetAnnotations \<and> formFieldName w = Some n \<and>
             List.find (\<lambda>widget. formFieldName widget = Some n) widgetAnnotations = Some w \<and>
             find_targets a widgetAnnotations formFields cfg =
               (Some w, List.find (\<lambda>ff. name ff = Some n) formFields, [Log_Strategy1]) \<and>
             (getAnnotations v h (pageIndex a) = Inr allAnnotations \<and>
              getFormFields v h = Inr formFields \<longrightarrow>
                (\<exists>h' rest.
                   fst (handleSignatureCreation v cfg a (h, out)) =
                     (h', out @ [Log_SignatureDetected (ann_class a),
                                 Log_FoundWidgets (length widgetAnnotations),
                                 Log_Strategy1, Call_delete (AnnotationEntity w)] @ rest) \<and>
                   Log_Strategy2 \<notin> set rest))"
proof -
  from find_first_exists [OF assms(4)] obtain w
    where w: "List.find (\<lambda>widget. formFieldName widget = Some n) widgetAnnotations = Some w"
      "w \<in> set widgetAnnotations" "formFieldName w = Some n"
    by blast
  note t = find_targets_strategy1 [OF assms(1,2) w(1), of formFields cfg]
  have "\<exists>h' rest.
          fst (handleSignatureCreation v cfg a (h, out)) =
            (h', out @ [Log_SignatureDetected (ann_class a),
                        Log_FoundWidgets (length widgetAnnotations),
                        Log_Strategy1, Call_delete (AnnotationEntity w)] @ rest) \<and>
          Log_Strategy2 \<notin> set rest"
    if "getAnnotations v h (pageIndex a) = Inr allAnnotations"
      and "getFormFields v h = Inr formFields"
    using handle_strategy1 [OF that assms(1,2) w(1) [unfolded assms(3)], of cfg out]
    unfolding assms(3) .
  with w t show ?thesis by blast
qed

theorem strategy1_takes_precedence_witness:
  "strategy2 (boundingBox ink_sig1) [widget_other, widget_sig1] [field_other, field_sig1]
     DEFAULT_CONFIG = Some (widget_other, Some field_other) \<and>
   find_targets ink_sig1 [widget_other, widget_sig1] [field_other, field_sig1] DEFAULT_CONFIG
     = (Some widget_sig1, Some field_sig1, [Log_Strategy1]) \<and>
   (\<exists>h' rest.
      fst (handleSignatureCreation (example_viewer permission_denied) DEFAULT_CONFIG ink_sig1
             (example_document Editable, [])) =
        (h', [Log_SignatureDetected InkAnnotation, Log_FoundWidgets 2, Log_Strategy1,
              Call_delete (AnnotationEntity widget_sig1)] @ rest) \<and>
      Log_Strategy2 \<notin> set rest)"
proof -
  have sig: "sublist ''Signature'' ''SignatureFormField''" by code_simp
  have s2: "strategy2 (boundingBox ink_sig1) [widget_other, widget_sig1] [field_other, field_sig1]
     DEFAULT_CONFIG = Some (widget_other, Some field_other)"
    using sig
    by (simp add: ink_sig1_def widget_other_def field_other_def checkBoundingBoxOverlap_def
        truthy_str_def isSignatureField_def includes_str_def or_empty_def Let_def)
  have n: "formFieldName ink_sig1 = Some ''Sig1''" "''Sig1'' \<noteq> []"
    by (simp_all add: ink_sig1_def)
  have ws: "[widget_other, widget_sig1] =
      filter (\<lambda>ann. ann_class ann = WidgetAnnotation) [widget_other, widget_sig1]"
    by (simp add: widget_other_def widget_sig1_def)
  have ex: "\<exists>widget \<in> set [widget_other, widget_sig1]. formFieldName widget = Some ''Sig1''"
    by (simp add: widget_sig1_def)
  have calls: "getAnnotations (example_viewer permission_denied) (example_document Editable) (pageIndex ink_sig1)
        = Inr [widget_other, widget_sig1] \<and>
      getFormFields (example_viewer permission_denied) (example_document Editable) = Inr [field_other, field_sig1]"
    by (simp add: example_viewer_def example_document_def ink_sig1_def widget_other_def
        widget_sig1_def)
  have first: "List.find (\<lambda>widget. formFieldName widget = Some ''Sig1'') [widget_other, widget_sig1]
      = Some widget_sig1"
    by (simp add: widget_other_def widget_sig1_def)
  have field: "List.find (\<lambda>ff. name ff = Some ''Sig1'') [field_other, field_sig1] = Some field_sig1"
    by (simp add: field_other_def field_sig1_def)
  from strategy1_takes_precedence [OF n ws ex,
      of "[field_other, field_sig1]" DEFAULT_CONFIG "example_viewer permission_denied"
        "example_document Editable" "[]"]
    calls first field s2
  show ?thesis by (auto simp: ink_sig1_def)
qed

subsection \<open>Failures during cleanup\<close>

lemma text_error_returns:
  assumes "messages_are_text e"
  shows "\<exists>b. isFormFieldNotFoundError e = Inr b"
  using text_error_recognised [OF assms] by blast

lemma delete_error_text:
  assumes "viewer_errors_are_text v" and "delete v h x = (h', Some e)"
  shows "messages_are_text e"
  using assms unfolding viewer_errors_are_text_def by blast

lemma delete_widget_error_text:
  assumes "viewer_errors_are_text v" and "delete_widget v w (h, out) = (s', Some e)"
  shows "messages_are_text e"
proof (cases w)
  case None
  with assms(2) show ?thesis by (simp add: delete_widget_def)
next
  case (Some wd)
  obtain h' r where d: "delete v h (AnnotationEntity wd) = (h', r)"
    by (cases "delete v h (AnnotationEntity wd)") auto
  with assms(2) Some have "r = Some e"
    by (cases r) (simp_all add: delete_widget_def)
  with d delete_error_text [OF assms(1)] show ?thesis by blast
qed

lemma delete_formField_error_text:
  assumes "viewer_errors_are_text v" and "delete_formField v f (h, out) = (s', Some e)"
  shows "messages_are_text e"
proof (cases f)
  case None
  with assms(2) show ?thesis by (simp add: delete_formField_def)
next
  case (Some ff)
  obtain h' r where d: "delete v h (FormFieldEntity ff) = (h', r)"
    by (cases "delete v h (FormFieldEntity ff)") auto
  show ?thesis
  proof (cases r)
    case None
    with assms(2) Some d show ?thesis by (simp add: delete_formField_def)
  next
    case (Some ffe)
    with d delete_error_text [OF assms(1)] have t: "messages_are_text ffe" by blast
    from text_error_returns [OF t] obtain b where b: "isFormFieldNotFoundError ffe = Inr b" by blast
    from assms(2) \<open>f = Some ff\<close> d Some b have "e = ffe"
      by (cases b) (simp_all add: delete_formField_def)
    with t show ?thesis by simp
  qed
qed

lemma cleanup_body_error_text:
  assumes "viewer_errors_are_text v" and "cleanup_body v cfg a (h, out) = (s', Some e)"
  shows "messages_are_text e"
proof (cases "getAnnotations v h (pageIndex a)")
  case (Inl e')
  with assms(2) have "e = e'" by (simp add: cleanup_body_def)
  with Inl assms(1) show ?thesis unfolding viewer_errors_are_text_def by blast
next
  case anns: (Inr allAnnotations)
  show ?thesis
  proof (cases "getFormFields v h")
    case (Inl e')
    with assms(2) anns have "e = e'" by (simp add: cleanup_body_def)
    with Inl assms(1) show ?thesis unfolding viewer_errors_are_text_def by blast
  next
    case ffs: (Inr formFields)
    let ?ws = "filter (\<lambda>ann. ann_class ann = WidgetAnnotation) allAnnotations"
    obtain w f found where t: "find_targets a ?ws formFields cfg = (w, f, found)"
      by (cases "find_targets a ?ws formFields cfg") auto
    let ?out0 = "out @ [Log_FoundWidgets (length ?ws)] @ found"
    obtain h1 out1 r1 where dw: "delete_widget v w (h, ?out0) = ((h1, out1), r1)"
      by (cases "delete_widget v w (h, ?out0)") auto
    show ?thesis
    proof (cases r1)
      case (Some e')
      with assms(2) anns ffs t dw have "e = e'"
        by (simp add: cleanup_body_def Let_def)
      with Some dw delete_widget_error_text [OF assms(1)] show ?thesis by blast
    next
      case None
      with assms(2) anns ffs t dw
      have "delete_formField v f (h1, out1) = (s', Some e)"
        by (simp add: cleanup_body_def Let_def)
      from delete_formField_error_text [OF assms(1) this] show ?thesis .
    qed
  qed
qed

lemma handleSignatureCreation_returns:
  assumes "viewer_errors_are_text v"
  shows "snd (handleSignatureCreation v cfg a (h, out)) = None"
proof -
  let ?out0 = "out @ [Log_SignatureDetected (ann_class a)]"
  obtain h1 out1 r where b: "cleanup_body v cfg a (h, ?out0) = ((h1, out1), r)"
    by (cases "cleanup_body v cfg a (h, ?out0)") auto
  show ?thesis
  proof (cases r)
    case None
    with b show ?thesis by (simp add: handleSignatureCreation_def)
  next
    case (Some e)
    with b cleanup_body_error_text [OF assms] have "messages_are_text e" by blast
    from text_error_returns [OF this] obtain c where "isFormFieldNotFoundError e = Inr c" by blast
    with b Some show ?thesis by (cases c) (simp_all add: handleSignatureCreation_def)
  qed
qed

lemma find_targets_silent:
  "find_targets a ws ffs cfg = (w, f, found) \<Longrightarrow> filter is_detected found = []"
  by (auto simp: find_targets_def strategy1_def Let_def split: if_splits option.splits)

lemma delete_widget_trace:
  "delete_widget v w (h, out) = ((h', out'), r) \<Longrightarrow>
     \<exists>more. out' = out @ more \<and> filter is_detected more = []"
  by (auto simp: delete_widget_def split: option.splits prod.splits)

lemma delete_formField_trace:
  "delete_formField v f (h, out) = ((h', out'), r) \<Longrightarrow>
     \<exists>more. out' = out @ more \<and> filter is_detected more = []"
  by (auto simp: delete_formField_def split: option.splits prod.splits sum.splits bool.splits)

lemma cleanup_body_trace:
  assumes "cleanup_body v cfg a (h, out) = ((h', out'), r)"
  shows "\<exists>more. out' = out @ more \<and> filter is_detected more = []"
proof (cases "getAnnotations v h (pageIndex a)")
  case (Inl e)
  with assms show ?thesis by (simp add: cleanup_body_def)
next
  case anns: (Inr allAnnotations)
  show ?thesis
  proof (cases "getFormFields v h")
    case (Inl e)
    with assms anns show ?thesis by (simp add: cleanup_body_def)
  next
    case ffs: (Inr formFields)
    let ?ws = "filter (\<lambda>ann. ann_class ann = WidgetAnnotation) allAnnotations"
    obtain w f found where t: "find_targets a ?ws formFields cfg = (w, f, found)"
      by (cases "find_targets a ?ws formFields cfg") auto
    let ?out0 = "out @ [Log_FoundWidgets (length ?ws)] @ found"
    obtain h1 out1 r1 where dw: "delete_widget v w (h, ?out0) = ((h1, out1), r1)"
      by (cases "delete_widget v w (h, ?out0)") auto
    from delete_widget_trace [OF dw] obtain m1
      where m1: "out1 = ?out0 @ m1" "filter is_detected m1 = []" by blast
    from find_targets_silent [OF t] have fs: "filter is_detected found = []" .
    show ?thesis
    proof (cases r1)
      case (Some e)
      with assms anns ffs t dw have "out' = out1"
        by (simp add: cleanup_body_def Let_def)
      with m1 fs show ?thesis by simp
    next
      case None
      with assms anns ffs t dw
      have df: "delete_formField v f (h1, out1) = ((h', out'), r)"
        by (simp add: cleanup_body_def Let_def)
      from delete_formField_trace [OF df] obtain m2
        where "out' = out1 @ m2" "filter is_detected m2 = []" by blast
      with m1 fs show ?thesis by simp
    qed
  qed
qed

lemma handleSignatureCreation_trace:
  "\<exists>h' more. fst (handleSignatureCreation v cfg a (h, out)) =
       (h', out @ Log_SignatureDetected (ann_class a) # more) \<and>
     filter is_detected more = []"
proof -
  let ?out0 = "out @ [Log_SignatureDetected (ann_class a)]"
  obtain h1 out1 r where b: "cleanup_body v cfg a (h, ?out0) = ((h1, out1), r)"
    by (cases "cleanup_body v cfg a (h, ?out0)") auto
  from cleanup_body_trace [OF b] obtain m
    where m: "out1 = ?out0 @ m" "filter is_detected m = []" by blast
  show ?thesis
    using b m
    by (cases r) (auto simp: handleSignatureCreation_def split: sum.splits bool.splits)
qed

lemma annotationHandler_returns:
  assumes "viewer_errors_are_text v"
  shows "snd (annotationHandler v cfg batch (h, out)) = None"
proof (induction batch arbitrary: h out)
  case Nil
  show ?case by simp
next
  case (Cons a rest)
  obtain h' out' r where s: "handleSignatureCreation v cfg a (h, out) = ((h', out'), r)"
    by (cases "handleSignatureCreation v cfg a (h, out)") auto
  with handleSignatureCreation_returns [OF assms, of cfg a h out] have "r = None" by simp
  with s Cons.IH [of h' out'] Cons.IH [of h out] show ?case
    by (simp add: Let_def)
qed

lemma annotationHandler_processes_all:
  assumes "viewer_errors_are_text v"
  shows "filter is_detected (snd (fst (annotationHandler v cfg batch (h, out)))) =
     filter is_detected out @
     map (\<lambda>a. Log_SignatureDetected (ann_class a))
       (filter (\<lambda>a. ann_class a = InkAnnotation \<or> ann_class a = ImageAnnotation) batch)"
proof (induction batch arbitrary: h out)
  case Nil
  show ?case by simp
next
  case (Cons a rest)
  show ?case
  proof (cases "ann_class a = InkAnnotation \<or> ann_class a = ImageAnnotation")
    case False
    then show ?thesis using Cons.IH [of h out] by (simp add: Let_def)
  next
    case True
    from handleSignatureCreation_trace [of v cfg a h out] obtain h' more
      where s: "fst (handleSignatureCreation v cfg a (h, out)) =
          (h', out @ Log_SignatureDetected (ann_class a) # more)"
        and m: "filter is_detected more = []" by blast
    with handleSignatureCreation_returns [OF assms, of cfg a h out]
    have "handleSignatureCreation v cfg a (h, out) =
        ((h', out @ Log_SignatureDetected (ann_class a) # more), None)"
      by (cases "handleSignatureCreation v cfg a (h, out)") simp
    with True have "annotationHandler v cfg (a # rest) (h, out) =
        annotationHandler v cfg rest (h', out @ Log_SignatureDetected (ann_class a) # more)"
      by (auto simp: Let_def)
    then show ?thesis
      using Cons.IH [of h' "out @ Log_SignatureDetected (ann_class a) # more"] True m
      by simp
  qed
qed

lemma formField_failure:
  assumes "messages_are_text e"
    and "getAnnotations v h (pageIndex a) = Inr anns" and "getFormFields v h = Inr ffs"
    and "find_targets a (filter (\<lambda>ann. ann_class ann = WidgetAnnotation) anns) ffs cfg
           = (wt, Some ff, found)"
    and "delete_widget v wt
           (h, out @ [Log_SignatureDetected (ann_class a),
                      Log_FoundWidgets (length (filter (\<lambda>ann. ann_class ann = WidgetAnnotation) anns))]
                   @ found) = ((h1, out1), None)"
    and "delete v h1 (FormFieldEntity ff) = (h2, Some e)"
  shows "handleSignatureCreation v cfg a (h, out) =
           ((h2, out1 @ [Call_delete (FormFieldEntity ff),
                         if isFormFieldNotFoundError e = Inr True then Log_AlreadyDeleted
                         else Error_Deleting e]), None)"
proof -
  from text_error_returns [OF assms(1)] obtain b where "isFormFieldNotFoundError e = Inr b"
    by blast
  with assms(2-) show ?thesis
    by (cases b)
      (simp_all add: handleSignatureCreation_def cleanup_body_def delete_formField_def Let_def)
qed

lemma widget_failure:
  assumes "messages_are_text e"
    and "getAnnotations v h (pageIndex a) = Inr anns" and "getFormFields v h = Inr ffs"
    and "find_targets a (filter (\<lambda>ann. ann_class ann = WidgetAnnotation) anns) ffs cfg
           = (Some w, f, found)"
    and "delete v h (AnnotationEntity w) = (h1, Some e)"
  shows "handleSignatureCreation v cfg a (h, out) =
           ((h1, out @ [Log_SignatureDetected (ann_class a),
                        Log_FoundWidgets (length (filter (\<lambda>ann. ann_class ann = WidgetAnnotation) anns))]
                     @ found @
                     [Call_delete (AnnotationEntity w),
                      if isFormFieldNotFoundError e = Inr True then Log_AlreadyDeleted
                      else Error_Deleting e]), None)"
proof -
  from text_error_returns [OF assms(1)] obtain b where "isFormFieldNotFoundError e = Inr b"
    by blast
  with assms(2-) show ?thesis
    by (cases b)
      (simp_all add: handleSignatureCreation_def cleanup_body_def delete_widget_def Let_def)
qed

lemma example_viewer_errors_text:
  assumes "messages_are_text refusal"
  shows "viewer_errors_are_text (example_viewer refusal)"
proof -
  have "messages_are_text no_such_field"
    by (simp add: no_such_field_def messages_are_text_def)
  with assms show ?thesis
    by (auto simp: viewer_errors_are_text_def example_viewer_def
        split: entity.splits protection.splits if_splits)
qed

lemma widget_failure_thrown:
  assumes "isFormFieldNotFoundError e = Inl t"
    and "getAnnotations v h (pageIndex a) = Inr anns" and "getFormFields v h = Inr ffs"
    and "find_targets a (filter (\<lambda>ann. ann_class ann = WidgetAnnotation) anns) ffs cfg
           = (Some w, f, found)"
    and "delete v h (AnnotationEntity w) = (h1, Some e)"
  shows "handleSignatureCreation v cfg a (h, out) =
           ((h1, out @ [Log_SignatureDetected (ann_class a),
                        Log_FoundWidgets (length (filter (\<lambda>ann. ann_class ann = WidgetAnnotation) anns))]
                     @ found @ [Call_delete (AnnotationEntity w)]), Some t)"
  using assms
  by (simp add: handleSignatureCreation_def cleanup_body_def delete_widget_def Let_def)

lemma example_calls:
  "getAnnotations (example_viewer r) (example_document p) (pageIndex ink_sig1)
     = Inr [widget_other, widget_sig1]"
  "getFormFields (example_viewer r) (example_document p) = Inr [field_other, field_sig1]"
  by (simp_all add: example_viewer_def example_document_def ink_sig1_def widget_other_def
      widget_sig1_def)

lemma example_targets:
  "find_targets ink_sig1
     (filter (\<lambda>ann. ann_class ann = WidgetAnnotation) [widget_other, widget_sig1])
     [field_other, field_sig1] DEFAULT_CONFIG
   = (Some widget_sig1, Some field_sig1, [Log_Strategy1])"
  by (simp add: find_targets_def strategy1_def truthy_str_def Let_def ink_sig1_def
      widget_other_def widget_sig1_def field_other_def field_sig1_def)

lemma example_refused:
  "delete (example_viewer r) (example_document ReadOnly) (AnnotationEntity widget_sig1)
     = (example_document ReadOnly, Some r)"
  by (simp add: example_viewer_def example_document_def)

lemma example_errors:
  "isFormFieldNotFoundError no_such_field = Inr True"
  "isFormFieldNotFoundError permission_denied = Inr False"
  "isFormFieldNotFoundError numeric_message = Inl not_a_function"
proof -
  have gone: "sublist ''no form field'' ''There is no form field with this name''"
    by code_simp
  have denied: "\<not> sublist ''no form field'' ''Permission denied''"
    by code_simp
  show "isFormFieldNotFoundError no_such_field = Inr True"
    using gone
    by (simp add: isFormFieldNotFoundError_def no_such_field_def string_message_matches)
  show "isFormFieldNotFoundError permission_denied = Inr False"
    using denied
    by (simp add: isFormFieldNotFoundError_def permission_denied_def string_message_matches)
  show "isFormFieldNotFoundError numeric_message = Inl not_a_function"
    by (simp add: isFormFieldNotFoundError_def numeric_message_def message_matches_def)
qed

lemma example_classes:
  "ann_class ink_sig1 = InkAnnotation" "ann_class image_sig2 = ImageAnnotation"
  "ann_class widget_other = WidgetAnnotation" "ann_class widget_sig1 = WidgetAnnotation"
  by (simp_all add: ink_sig1_def image_sig2_def widget_other_def widget_sig1_def)

text \<open>
  C4, as stated, fails in two ways. A viewer that refuses to delete the widget with an
  error whose message contains \<^verbatim>\<open>no form field\<close>: the failure is no form-field deletion,
  and it is dropped with the note that the form field was already deleted, not reported.
  A viewer that refuses with an error whose message is the number 42: the \<^verbatim>\<open>catch\<close>
  itself throws, the handler ends with that \<^verbatim>\<open>TypeError\<close>, and the image annotation
  that follows in the batch is never looked at.
\<close>

theorem cleanup_failures_counterexample:
  "handleSignatureCreation (example_viewer no_such_field) DEFAULT_CONFIG ink_sig1
     (example_document ReadOnly, []) =
     ((example_document ReadOnly,
       [Log_SignatureDetected InkAnnotation, Log_FoundWidgets 2, Log_Strategy1,
        Call_delete (AnnotationEntity widget_sig1), Log_AlreadyDeleted]), None) \<and>
   annotationHandler (example_viewer numeric_message) DEFAULT_CONFIG [ink_sig1, image_sig2]
     (example_document ReadOnly, []) =
     ((example_document ReadOnly,
       [Log_SignatureDetected InkAnnotation, Log_FoundWidgets 2, Log_Strategy1,
        Call_delete (AnnotationEntity widget_sig1)]), Some not_a_function)"
proof -
  have t: "messages_are_text no_such_field"
    by (simp add: no_such_field_def messages_are_text_def)
  have a: "handleSignatureCreation (example_viewer no_such_field) DEFAULT_CONFIG ink_sig1
     (example_document ReadOnly, []) =
     ((example_document ReadOnly,
       [Log_SignatureDetected InkAnnotation, Log_FoundWidgets 2, Log_Strategy1,
        Call_delete (AnnotationEntity widget_sig1), Log_AlreadyDeleted]), None)"
    using widget_failure [OF t example_calls example_targets example_refused, of "[]"]
    by (simp add: example_errors example_classes)
  have b: "handleSignatureCreation (example_viewer numeric_message) DEFAULT_CONFIG ink_sig1
     (example_document ReadOnly, []) =
     ((example_document ReadOnly,
       [Log_SignatureDetected InkAnnotation, Log_FoundWidgets 2, Log_Strategy1,
        Call_delete (AnnotationEntity widget_sig1)]), Some not_a_function)"
    using widget_failure_thrown
      [OF example_errors(3) example_calls example_targets example_refused, of "[]"]
    by (simp add: example_classes)
  from a b show ?thesis by (simp add: example_classes Let_def)
qed

text \<open>
  C4, amended. Let every call of the viewer, when it fails, fail with error values whose
  messages are strings where they are more than a value that \<^verbatim>\<open>|| ""\<close> replaces. Then
  \<^verbatim>\<open>handleSignatureCreation\<close> and the handler of \<^verbatim>\<open>createAnnotationHandler\<close> never end
  with an error, and the handler announces every ink and image annotation of the batch,
  in order, whatever fails on the way. When the deletion of the form field fails, or the
  deletion of the widget before it, the failure is dropped with the note that the form
  field was already deleted if \<^verbatim>\<open>isFormFieldNotFoundError\<close> recognises it, and is written
  to the console as an error otherwise.
\<close>

theorem cleanup_failures_contained:
  assumes "viewer_errors_are_text v"
  shows
  "snd (handleSignatureCreation v cfg a (h, out)) = None \<and>
   snd (annotationHandler v cfg batch (h, out)) = None \<and>
   filter is_detected (snd (fst (annotationHandler v cfg batch (h, out)))) =
     filter is_detected out @
     map (\<lambda>a. Log_SignatureDetected (ann_class a))
       (filter (\<lambda>a. ann_class a = InkAnnotation \<or> ann_class a = ImageAnnotation) batch) \<and>
   (getAnnotations v h (pageIndex a) = Inr anns \<and> getFormFields v h = Inr ffs \<longrightarrow>
      (find_targets a (filter (\<lambda>ann. ann_class ann = WidgetAnnotation) anns) ffs cfg
         = (wt, Some ff, found) \<and>
       delete_widget v wt
         (h, out @ [Log_SignatureDetected (ann_class a),
                    Log_FoundWidgets (length (filter (\<lambda>ann. ann_class ann = WidgetAnnotation) anns))]
                 @ found) = ((h1, out1), None) \<and>
       delete v h1 (FormFieldEntity ff) = (h2, Some e) \<longrightarrow>
         handleSignatureCreation v cfg a (h, out) =
           ((h2, out1 @ [Call_delete (FormFieldEntity ff),
                         if isFormFieldNotFoundError e = Inr True then Log_AlreadyDeleted
                         else Error_Deleting e]), None)) \<and>
      (find_targets a (filter (\<lambda>ann. ann_class ann = WidgetAnnotation) anns) ffs cfg
         = (Some w, f, found) \<and>
       delete v h (AnnotationEntity w) = (h1, Some e) \<longrightarrow>
         handleSignatureCreation v cfg a (h, out) =
           ((h1, out @ [Log_SignatureDetected (ann_class a),
                        Log_FoundWidgets (length (filter (\<lambda>ann. ann_class ann = WidgetAnnotation) anns))]
                     @ found @
                     [Call_delete (AnnotationEntity w),
                      if isFormFieldNotFoundError e = Inr True then Log_AlreadyDeleted
                      else Error_Deleting e]), None)))"
proof -
  have ff: "handleSignatureCreation v cfg a (h, out) =
           ((h2, out1 @ [Call_delete (FormFieldEntity ff),
                         if isFormFieldNotFoundError e = Inr True then Log_AlreadyDeleted
                         else Error_Deleting e]), None)"
    if "getAnnotations v h (pageIndex a) = Inr anns" "getFormFields v h = Inr ffs"
      "find_targets a (filter (\<lambda>ann. ann_class ann = WidgetAnnotation) anns) ffs cfg
         = (wt, Some ff, found)"
      "delete_widget v wt
         (h, out @ [Log_SignatureDetected (ann_class a),
                    Log_FoundWidgets (length (filter (\<lambda>ann. ann_class ann = WidgetAnnotation) anns))]
                 @ found) = ((h1, out1), None)"
      "delete v h1 (FormFieldEntity ff) = (h2, Some e)"
    using formField_failure [OF delete_error_text [OF assms that(5)] that] .
  have wd: "handleSignatureCreation v cfg a (h, out) =
           ((h1, out @ [Log_SignatureDetected (ann_class a),
                        Log_FoundWidgets (length (filter (\<lambda>ann. ann_class ann = WidgetAnnotation) anns))]
                     @ found @
                     [Call_delete (AnnotationEntity w),
                      if isFormFieldNotFoundError e = Inr True then Log_AlreadyDeleted
                      else Error_Deleting e]), None)"
    if "getAnnotations v h (pageIndex a) = Inr anns" "getFormFields v h = Inr ffs"
      "find_targets a (filter (\<lambda>ann. ann_class ann = WidgetAnnotation) anns) ffs cfg
         = (Some w, f, found)"
      "delete v h (AnnotationEntity w) = (h1, Some e)"
    using widget_failure [OF delete_error_text [OF assms that(4)] that] .
  from handleSignatureCreation_returns [OF assms, of cfg a h out]
    annotationHandler_returns [OF assms, of cfg batch h out]
    annotationHandler_processes_all [OF assms, of cfg batch h out]
    ff wd
  show ?thesis by blast
qed

theorem cleanup_failures_contained_witness:
  "handleSignatureCreation (example_viewer permission_denied) DEFAULT_CONFIG ink_sig1
     (example_document Editable, []) =
     ((\<lparr>doc_annotations = [widget_other], doc_formFields = [field_other],
        doc_protection = Editable\<rparr>,
       [Log_SignatureDetected InkAnnotation, Log_FoundWidgets 2, Log_Strategy1,
        Call_delete (AnnotationEntity widget_sig1), Log_DeletedWidget,
        Call_delete (FormFieldEntity field_sig1), Log_AlreadyDeleted]), None) \<and>
   handleSignatureCreation (example_viewer permission_denied) DEFAULT_CONFIG ink_sig1
     (example_document FieldsLocked, []) =
     ((\<lparr>doc_annotations = [widget_other], doc_formFields = [field_other, field_sig1],
        doc_protection = FieldsLocked\<rparr>,
       [Log_SignatureDetected InkAnnotation, Log_FoundWidgets 2, Log_Strategy1,
        Call_delete (AnnotationEntity widget_sig1), Log_DeletedWidget,
        Call_delete (FormFieldEntity field_sig1), Error_Deleting permission_denied]), None) \<and>
   handleSignatureCreation (example_viewer permission_denied) DEFAULT_CONFIG ink_sig1
     (example_document ReadOnly, []) =
     ((example_document ReadOnly,
       [Log_SignatureDetected InkAnnotation, Log_FoundWidgets 2, Log_Strategy1,
        Call_delete (AnnotationEntity widget_sig1), Error_Deleting permission_denied]), None) \<and>
   snd (annotationHandler (example_viewer permission_denied) DEFAULT_CONFIG
          [ink_sig1, widget_other, image_sig2] (example_document ReadOnly, [])) = None \<and>
   filter is_detected
     (snd (fst (annotationHandler (example_viewer permission_denied) DEFAULT_CONFIG
                  [ink_sig1, widget_other, image_sig2] (example_document ReadOnly, [])))) =
     [Log_SignatureDetected InkAnnotation, Log_SignatureDetected ImageAnnotation]"
proof -
  let ?v = "example_viewer permission_denied"
  let ?ws = "[widget_other, widget_sig1]"
  let ?ffs = "[field_other, field_sig1]"
  let ?out0 = "[] @ [Log_SignatureDetected (ann_class ink_sig1),
      Log_FoundWidgets (length (filter (\<lambda>ann. ann_class ann = WidgetAnnotation) ?ws))] @ [Log_Strategy1]"
  let ?out1 = "[Log_SignatureDetected InkAnnotation, Log_FoundWidgets 2, Log_Strategy1,
      Call_delete (AnnotationEntity widget_sig1), Log_DeletedWidget]"
  let ?d1 = "\<lparr>doc_annotations = [widget_other], doc_formFields = [field_other],
      doc_protection = Editable\<rparr>"
  let ?d2 = "\<lparr>doc_annotations = [widget_other], doc_formFields = [field_other, field_sig1],
      doc_protection = FieldsLocked\<rparr>"
  have plain: "viewer_errors_are_text ?v"
    by (rule example_viewer_errors_text) (simp add: permission_denied_def messages_are_text_def)
  have dw1: "delete_widget ?v (Some widget_sig1) (example_document Editable, ?out0)
      = ((?d1, ?out1), None)"
    by (simp add: delete_widget_def example_viewer_def example_document_def ink_sig1_def
        widget_other_def widget_sig1_def field_other_def field_sig1_def)
  have dw2: "delete_widget ?v (Some widget_sig1) (example_document FieldsLocked, ?out0)
      = ((?d2, ?out1), None)"
    by (simp add: delete_widget_def example_viewer_def example_document_def ink_sig1_def
        widget_other_def widget_sig1_def field_other_def field_sig1_def)
  have df1: "delete ?v ?d1 (FormFieldEntity field_sig1) = (?d1, Some no_such_field)"
    by (simp add: example_viewer_def field_other_def field_sig1_def)
  have df2: "delete ?v ?d2 (FormFieldEntity field_sig1) = (?d2, Some permission_denied)"
    by (simp add: example_viewer_def)
  note editable = cleanup_failures_contained
      [OF plain, of DEFAULT_CONFIG ink_sig1 "example_document Editable" "[]" "[]" ?ws ?ffs
        "Some widget_sig1" field_sig1 "[Log_Strategy1]" ?d1 ?out1 ?d1 no_such_field
        widget_sig1 "Some field_sig1"]
  note locked = cleanup_failures_contained
      [OF plain, of DEFAULT_CONFIG ink_sig1 "example_document FieldsLocked" "[]" "[]" ?ws ?ffs
        "Some widget_sig1" field_sig1 "[Log_Strategy1]" ?d2 ?out1 ?d2 permission_denied
        widget_sig1 "Some field_sig1"]
  note readonly = cleanup_failures_contained
      [OF plain, of DEFAULT_CONFIG ink_sig1 "example_document ReadOnly" "[]"
        "[ink_sig1, widget_other, image_sig2]" ?ws ?ffs
        "Some widget_sig1" field_sig1 "[Log_Strategy1]" "example_document ReadOnly" ?out1
        "example_document ReadOnly" permission_denied widget_sig1 "Some field_sig1"]
  have a: "handleSignatureCreation ?v DEFAULT_CONFIG ink_sig1 (example_document Editable, [])
      = ((?d1, ?out1 @ [Call_delete (FormFieldEntity field_sig1), Log_AlreadyDeleted]), None)"
    using editable example_calls [of permission_denied Editable] example_targets dw1 df1
    by (simp add: example_errors)
  have b: "handleSignatureCreation ?v DEFAULT_CONFIG ink_sig1 (example_document FieldsLocked, [])
      = ((?d2, ?out1 @ [Call_delete (FormFieldEntity field_sig1), Error_Deleting permission_denied]), None)"
    using locked example_calls [of permission_denied FieldsLocked] example_targets dw2 df2
    by (simp add: example_errors)
  have c: "handleSignatureCreation ?v DEFAULT_CONFIG ink_sig1 (example_document ReadOnly, [])
      = ((example_document ReadOnly,
          [Log_SignatureDetected InkAnnotation, Log_FoundWidgets 2, Log_Strategy1,
           Call_delete (AnnotationEntity widget_sig1), Error_Deleting permission_denied]), None)"
    using readonly example_calls [of permission_denied ReadOnly] example_targets
      example_refused [of permission_denied]
    by (simp add: example_errors example_classes)
  have d: "snd (annotationHandler ?v DEFAULT_CONFIG [ink_sig1, widget_other, image_sig2]
          (example_document ReadOnly, [])) = None \<and>
      filter is_detected
        (snd (fst (annotationHandler ?v DEFAULT_CONFIG [ink_sig1, widget_other, image_sig2]
                  (example_document ReadOnly, [])))) =
        [Log_SignatureDetected InkAnnotation, Log_SignatureDetected ImageAnnotation]"
    using readonly by (simp add: example_classes)
  from a b c d show ?thesis by simp
qed

subsection \<open>Merging a configuration with the defaults\<close>

lemma default_object:
  "config_object DEFAULT_CONFIG =
     JObj
      [(''curve'',
        JObj [(''color'', JStr ''#0078D4''), (''strokeWidth'', JStr ''1.5''),
              (''topLengthRatio'', JNum 0.25), (''topLengthMax'', JNum 50),
              (''bottomLengthRatio'', JNum 0.35), (''bottomLengthMax'', JNum 70)]),
       (''text'',
        JObj [(''color'', JStr ''#008000''),
              (''fontFamily'',
               JStr ''-apple-system, BlinkMacSystemFont, 'Segoe UI', Roboto, sans-serif''),
              (''fontSize'', JObj [(''top'', JNum 9), (''bottom'', JNum 8)]),
              (''gap'', JNum 3)]),
       (''position'',
        JObj [(''svgTopOffset'', JNum (- 25)), (''svgLeftOffset'', JNum (- 5)),
              (''topLabelOffset'', JNum (- 27)), (''bottomLabelOffset'', JNum (- 24))]),
       (''signatureIdentifiers'',
        JObj [(''typeCode'', JStr ''S''), (''namePattern'', JStr ''SIGNATURE'')]),
       (''defaults'', JObj [(''signerName'', JStr ''Nutrient'')]),
       (''dateTimeFormat'',
        JObj [(''year'', JStr ''numeric''), (''month'', JStr ''2-digit''),
              (''day'', JStr ''2-digit''), (''hour'', JStr ''2-digit''),
              (''minute'', JStr ''2-digit''), (''second'', JStr ''2-digit''),
              (''hour12'', JBool True)])]"
  by (simp add: config_object_def DEFAULT_CONFIG_def literal_def opt_prop_def)

lemma default_leaf_paths:
  "leaf_paths (config_object DEFAULT_CONFIG) =
     [[''curve'', ''color''], [''curve'', ''strokeWidth''], [''curve'', ''topLengthRatio''],
      [''curve'', ''topLengthMax''], [''curve'', ''bottomLengthRatio''],
      [''curve'', ''bottomLengthMax''], [''text'', ''color''], [''text'', ''fontFamily''],
      [''text'', ''fontSize'', ''top''], [''text'', ''fontSize'', ''bottom''], [''text'', ''gap''],
      [''position'', ''svgTopOffset''], [''position'', ''svgLeftOffset''],
      [''position'', ''topLabelOffset''], [''position'', ''bottomLabelOffset''],
      [''signatureIdentifiers'', ''typeCode''], [''signatureIdentifiers'', ''namePattern''],
      [''defaults'', ''signerName''], [''dateTimeFormat'', ''year''],
      [''dateTimeFormat'', ''month''], [''dateTimeFormat'', ''day''], [''dateTimeFormat'', ''hour''],
      [''dateTimeFormat'', ''minute''], [''dateTimeFormat'', ''second''],
      [''dateTimeFormat'', ''hour12'']]"
  unfolding default_object by simp

lemma documented_override_object:
  "documented_override =
     JObj [(''curve'', JObj [(''color'', JStr ''#FF0000'')]),
           (''text'', JObj [(''color'', JStr ''#0000FF'')])]"
  by (simp add: documented_override_def literal_def)

lemma typeCode_override_object:
  "typeCode_override = JObj [(''signatureIdentifiers'', JObj [(''typeCode'', JStr ''Sig'')])]"
  by (simp add: typeCode_override_def literal_def)

lemma hour12_override_object:
  "hour12_override = JObj [(''dateTimeFormat'', JObj [(''hour12'', JBool False)])]"
  by (simp add: hour12_override_def literal_def)

lemma shallow_documented:
  "initializeSignatureDecorator_config documented_override =
     JObj
      [(''curve'', JObj [(''color'', JStr ''#FF0000'')]),
       (''text'', JObj [(''color'', JStr ''#0000FF'')]),
       (''position'', get_prop (config_object DEFAULT_CONFIG) ''position''),
       (''signatureIdentifiers'', get_prop (config_object DEFAULT_CONFIG) ''signatureIdentifiers''),
       (''defaults'', get_prop (config_object DEFAULT_CONFIG) ''defaults''),
       (''dateTimeFormat'', get_prop (config_object DEFAULT_CONFIG) ''dateTimeFormat'')]"
  unfolding initializeSignatureDecorator_config_def default_object documented_override_object
  by (simp add: literal_def spread_def)

lemma deep_documented:
  "createSignatureRenderer_config documented_override =
     JObj
      [(''curve'',
        JObj [(''color'', JStr ''#FF0000''), (''strokeWidth'', JStr ''1.5''),
              (''topLengthRatio'', JNum 0.25), (''topLengthMax'', JNum 50),
              (''bottomLengthRatio'', JNum 0.35), (''bottomLengthMax'', JNum 70)]),
       (''text'',
        JObj [(''color'', JStr ''#0000FF''),
              (''fontFamily'',
               JStr ''-apple-system, BlinkMacSystemFont, 'Segoe UI', Roboto, sans-serif''),
              (''fontSize'', JObj [(''top'', JNum 9), (''bottom'', JNum 8)]),
              (''gap'', JNum 3)]),
       (''position'', get_prop (config_object DEFAULT_CONFIG) ''position''),
       (''signatureIdentifiers'', get_prop (config_object DEFAULT_CONFIG) ''signatureIdentifiers''),
       (''defaults'', get_prop (config_object DEFAULT_CONFIG) ''defaults''),
       (''dateTimeFormat'', get_prop (config_object DEFAULT_CONFIG) ''dateTimeFormat'')]"
  unfolding createSignatureRenderer_config_def default_object documented_override_object
  by (simp add: literal_def spread_def get_path_def)

text \<open>
  C1 does not hold of the code. \<^verbatim>\<open>initializeSignatureDecorator\<close> merges the top level
  only: with the override of its own documentation, \<^verbatim>\<open>curve.strokeWidth\<close> is undefined in
  the merged configuration, and an override of the type code alone loses the name pattern.
  \<^verbatim>\<open>createSignatureRenderer\<close> fills both from the defaults; it takes \<^verbatim>\<open>dateTimeFormat\<close>
  whole from the override, though.
\<close>

theorem shallow_merge_leaves_gaps:
  "get_path (initializeSignatureDecorator_config documented_override) [''curve'', ''strokeWidth'']
     = JUndefined \<and>
   \<not> every_leaf_defined (initializeSignatureDecorator_config documented_override) \<and>
   every_leaf_defined (createSignatureRenderer_config documented_override) \<and>
   get_path (initializeSignatureDecorator_config typeCode_override)
     [''signatureIdentifiers'', ''namePattern''] = JUndefined \<and>
   get_path (createSignatureRenderer_config typeCode_override)
     [''signatureIdentifiers'', ''namePattern''] = JStr ''SIGNATURE'' \<and>
   get_path (createSignatureRenderer_config hour12_override) [''dateTimeFormat'', ''year'']
     = JUndefined"
proof -
  have a: "get_path (initializeSignatureDecorator_config documented_override)
      [''curve'', ''strokeWidth''] = JUndefined"
    unfolding shallow_documented by (simp add: get_path_def)
  then have b: "\<not> every_leaf_defined (initializeSignatureDecorator_config documented_override)"
    unfolding every_leaf_defined_def default_leaf_paths by simp
  have c: "every_leaf_defined (createSignatureRenderer_config documented_override)"
    unfolding every_leaf_defined_def default_leaf_paths deep_documented default_object
    by (simp add: get_path_def)
  have d: "get_path (initializeSignatureDecorator_config typeCode_override)
      [''signatureIdentifiers'', ''namePattern''] = JUndefined"
    unfolding initializeSignatureDecorator_config_def default_object typeCode_override_object
    by (simp add: literal_def spread_def get_path_def)
  have e: "get_path (createSignatureRenderer_config typeCode_override)
      [''signatureIdentifiers'', ''namePattern''] = JStr ''SIGNATURE''"
    unfolding createSignatureRenderer_config_def default_object typeCode_override_object
    by (simp add: literal_def spread_def get_path_def)
  have f: "get_path (createSignatureRenderer_config hour12_override) [''dateTimeFormat'', ''year'']
      = JUndefined"
    unfolding createSignatureRenderer_config_def default_object hour12_override_object
    by (simp add: literal_def spread_def get_path_def)
  from a b c d e f show ?thesis by blast
qed

lemma update_defined:
  assumes "\<exists>v. map_of obj k = Some v \<and> v \<noteq> JUndefined" and "x \<noteq> JUndefined"
  shows "\<exists>v. map_of (AList.update j x obj) k = Some v \<and> v \<noteq> JUndefined"
  using assms by (simp add: AList.update_conv')

lemma fold_update_defined:
  assumes "list_all (\<lambda>kv. snd kv \<noteq> JUndefined) ps"
    and "\<exists>v. map_of obj k = Some v \<and> v \<noteq> JUndefined"
  shows "\<exists>v. map_of (fold (\<lambda>kv. AList.update (fst kv) (snd kv)) ps obj) k = Some v \<and> v \<noteq> JUndefined"
  using assms
proof (induction ps arbitrary: obj)
  case Nil
  then show ?case by simp
next
  case (Cons p ps)
  from Cons.prems have "snd p \<noteq> JUndefined" and rest: "list_all (\<lambda>kv. snd kv \<noteq> JUndefined) ps"
    by simp_all
  with Cons.prems(2) have "\<exists>v. map_of (AList.update (fst p) (snd p) obj) k = Some v \<and> v \<noteq> JUndefined"
    by (intro update_defined)
  from Cons.IH [OF rest this] show ?case by simp
qed

lemma spread_keeps_defined:
  assumes "no_undefined_props src" and "get_prop (JObj obj) k \<noteq> JUndefined"
  shows "get_prop (JObj (spread src obj)) k \<noteq> JUndefined"
proof -
  from assms(2) have "\<exists>v. map_of obj k = Some v \<and> v \<noteq> JUndefined"
    by (cases "map_of obj k") auto
  from fold_update_defined [OF assms(1) [unfolded no_undefined_props_def] this]
  show ?thesis by (auto simp: spread_def)
qed

lemma merged_subtree_defined:
  assumes "no_undefined_props c" and "get_prop (literal [Spread dflt]) k \<noteq> JUndefined"
  shows "get_prop (literal [Spread dflt, Spread c]) k \<noteq> JUndefined"
  using spread_keeps_defined [OF assms(1), of "spread dflt []" k] assms(2)
  by (simp add: literal_def)


lemma merged_subtree_defined':
  assumes "no_undefined_props c" and "get_prop (literal [Spread dflt]) k \<noteq> JUndefined"
    and "x \<noteq> JUndefined"
  shows "get_prop (literal [Spread dflt, Spread c, Prop j x]) k \<noteq> JUndefined"
proof -
  from spread_keeps_defined [OF assms(1), of "spread dflt []" k] assms(2)
  have "get_prop (JObj (spread c (spread dflt []))) k \<noteq> JUndefined"
    by (simp add: literal_def)
  then have "\<exists>v. map_of (spread c (spread dflt [])) k = Some v \<and> v \<noteq> JUndefined"
    by (cases "map_of (spread c (spread dflt [])) k") auto
  from update_defined [OF this assms(3), of j] show ?thesis
    by (auto simp: literal_def)
qed

lemma literal_neq_undefined: "literal ps \<noteq> JUndefined"
  by (simp add: literal_def)

lemma merged_subtrees:
  "get_prop (createSignatureRenderer_config c) ''curve'' =
     literal [Spread (get_prop (config_object DEFAULT_CONFIG) ''curve''), Spread (get_prop c ''curve'')]"
  "get_prop (createSignatureRenderer_config c) ''position'' =
     literal [Spread (get_prop (config_object DEFAULT_CONFIG) ''position''),
              Spread (get_prop c ''position'')]"
  "get_prop (createSignatureRenderer_config c) ''signatureIdentifiers'' =
     literal [Spread (get_prop (config_object DEFAULT_CONFIG) ''signatureIdentifiers''),
              Spread (get_prop c ''signatureIdentifiers'')]"
  "get_prop (createSignatureRenderer_config c) ''defaults'' =
     literal [Spread (get_prop (config_object DEFAULT_CONFIG) ''defaults''),
              Spread (get_prop c ''defaults'')]"
  "get_prop (createSignatureRenderer_config c) ''text'' =
     literal [Spread (get_prop (config_object DEFAULT_CONFIG) ''text''),
              Spread (get_prop c ''text''),
              Prop ''fontSize'' (literal
                [Spread (get_path (config_object DEFAULT_CONFIG) [''text'', ''fontSize'']),
                 Spread (get_path c [''text'', ''fontSize''])])]"
  by (simp_all add: createSignatureRenderer_config_def Let_def literal_def [of "[_, _, _, _, _, _, _]"]
      AList.update_conv')


lemma text_fontSize:
  "get_prop (literal [Spread t, Spread u, Prop ''fontSize'' x]) ''fontSize'' = x"
  by (simp add: literal_def AList.update_conv')


lemma merged_keys_defined:
  assumes "no_undefined_props c"
    and "list_all (\<lambda>k. get_prop (literal [Spread dflt]) k \<noteq> JUndefined) ks"
  shows "list_all (\<lambda>k. get_prop (literal [Spread dflt, Spread c]) k \<noteq> JUndefined) ks"
  using merged_subtree_defined [OF assms(1)] assms(2) by (simp add: list_all_iff)

lemma merged_keys_defined':
  assumes "no_undefined_props c"
    and "list_all (\<lambda>k. get_prop (literal [Spread dflt]) k \<noteq> JUndefined) ks"
  shows "list_all (\<lambda>k. get_prop (literal [Spread dflt, Spread c, Prop j (literal ps)]) k \<noteq> JUndefined) ks"
  using merged_subtree_defined' [OF assms(1) _ literal_neq_undefined] assms(2)
  by (simp add: list_all_iff)

lemma default_subtrees_defined:
  "list_all (\<lambda>k. get_prop (literal [Spread (get_prop (config_object DEFAULT_CONFIG) ''curve'')]) k
      \<noteq> JUndefined)
     [''color'', ''strokeWidth'', ''topLengthRatio'', ''topLengthMax'', ''bottomLengthRatio'',
      ''bottomLengthMax'']"
  "list_all (\<lambda>k. get_prop (literal [Spread (get_prop (config_object DEFAULT_CONFIG) ''text'')]) k
      \<noteq> JUndefined)
     [''color'', ''fontFamily'', ''gap'']"
  "list_all (\<lambda>k. get_prop (literal
        [Spread (get_path (config_object DEFAULT_CONFIG) [''text'', ''fontSize''])]) k \<noteq> JUndefined)
     [''top'', ''bottom'']"
  "list_all (\<lambda>k. get_prop (literal [Spread (get_prop (config_object DEFAULT_CONFIG) ''position'')]) k
      \<noteq> JUndefined)
     [''svgTopOffset'', ''svgLeftOffset'', ''topLabelOffset'', ''bottomLabelOffset'']"
  "list_all (\<lambda>k. get_prop (literal
        [Spread (get_prop (config_object DEFAULT_CONFIG) ''signatureIdentifiers'')]) k \<noteq> JUndefined)
     [''typeCode'', ''namePattern'']"
  "list_all (\<lambda>k. get_prop (literal [Spread (get_prop (config_object DEFAULT_CONFIG) ''defaults'')]) k
      \<noteq> JUndefined)
     [''signerName'']"
  unfolding default_object by (simp_all add: literal_def spread_def get_path_def)


text \<open>
  What the merge of \<^verbatim>\<open>createSignatureRenderer\<close> does achieve: for an override whose
  objects hold no \<^verbatim>\<open>undefined\<close>, every leaf outside \<^verbatim>\<open>dateTimeFormat\<close> is defined in
  the merged configuration.
\<close>

lemma deep_merge_fills_leaves:
  assumes "plain_override c"
  shows "list_all (\<lambda>p. get_path (createSignatureRenderer_config c) p \<noteq> JUndefined)
           (filter (\<lambda>p. hd p \<noteq> ''dateTimeFormat'') (leaf_paths (config_object DEFAULT_CONFIG)))"
proof -
  let ?m = "createSignatureRenderer_config c"
  from assms have c: "no_undefined_props (get_prop c ''curve'')"
    "no_undefined_props (get_prop c ''text'')"
    "no_undefined_props (get_path c [''text'', ''fontSize''])"
    "no_undefined_props (get_prop c ''position'')"
    "no_undefined_props (get_prop c ''signatureIdentifiers'')"
    "no_undefined_props (get_prop c ''defaults'')"
    by (simp_all add: plain_override_def get_path_def)
  have curve: "list_all (\<lambda>k. get_prop (get_prop ?m ''curve'') k \<noteq> JUndefined)
      [''color'', ''strokeWidth'', ''topLengthRatio'', ''topLengthMax'', ''bottomLengthRatio'',
       ''bottomLengthMax'']"
    unfolding merged_subtrees by (rule merged_keys_defined [OF c(1) default_subtrees_defined(1)])
  have text_keys: "list_all (\<lambda>k. get_prop (get_prop ?m ''text'') k \<noteq> JUndefined)
      [''color'', ''fontFamily'', ''gap'']"
    unfolding merged_subtrees by (rule merged_keys_defined' [OF c(2) default_subtrees_defined(2)])
  have size: "list_all (\<lambda>k. get_prop (get_prop (get_prop ?m ''text'') ''fontSize'') k \<noteq> JUndefined)
      [''top'', ''bottom'']"
    unfolding merged_subtrees text_fontSize
    by (rule merged_keys_defined [OF c(3) default_subtrees_defined(3)])
  have position: "list_all (\<lambda>k. get_prop (get_prop ?m ''position'') k \<noteq> JUndefined)
      [''svgTopOffset'', ''svgLeftOffset'', ''topLabelOffset'', ''bottomLabelOffset'']"
    unfolding merged_subtrees by (rule merged_keys_defined [OF c(4) default_subtrees_defined(4)])
  have ids: "list_all (\<lambda>k. get_prop (get_prop ?m ''signatureIdentifiers'') k \<noteq> JUndefined)
      [''typeCode'', ''namePattern'']"
    unfolding merged_subtrees by (rule merged_keys_defined [OF c(5) default_subtrees_defined(5)])
  have defaults: "list_all (\<lambda>k. get_prop (get_prop ?m ''defaults'') k \<noteq> JUndefined)
      [''signerName'']"
    unfolding merged_subtrees by (rule merged_keys_defined [OF c(6) default_subtrees_defined(6)])
  have paths: "filter (\<lambda>p. hd p \<noteq> ''dateTimeFormat'') (leaf_paths (config_object DEFAULT_CONFIG)) =
     [[''curve'', ''color''], [''curve'', ''strokeWidth''], [''curve'', ''topLengthRatio''],
      [''curve'', ''topLengthMax''], [''curve'', ''bottomLengthRatio''],
      [''curve'', ''bottomLengthMax''], [''text'', ''color''], [''text'', ''fontFamily''],
      [''text'', ''fontSize'', ''top''], [''text'', ''fontSize'', ''bottom''], [''text'', ''gap''],
      [''position'', ''svgTopOffset''], [''position'', ''svgLeftOffset''],
      [''position'', ''topLabelOffset''], [''position'', ''bottomLabelOffset''],
      [''signatureIdentifiers'', ''typeCode''], [''signatureIdentifiers'', ''namePattern''],
      [''defaults'', ''signerName'']]"
    unfolding default_leaf_paths by simp
  from curve text_keys size position ids defaults show ?thesis
    unfolding paths get_path_def by simp
qed


lemma documented_override_plain: "plain_override documented_override"
  unfolding documented_override_object
  by (simp add: plain_override_def no_undefined_props_def get_path_def)

end
